theory Spec2Isabelle
  imports Complex_Main
begin

section \<open>Numbers and errors\<close>

text \<open>
  The Python sources compute with \<open>float\<close> and \<open>int\<close> values. Both are embedded
  exactly: a Python number is a \<open>real\<close>, an integer count (contracts, days to
  expiration) is an \<open>int\<close>. Rounding of binary floating point is outside the embedding.

  Every \<open>raise\<close> of the modelled functions, and every exception of a Python builtin
  that they can trigger, is a constructor of \<open>error\<close>:
  \<^item> \<open>ZeroDivisionError\<close>: a division by zero;
  \<^item> \<open>EmptySequence\<close>: \<open>min()\<close> of an empty sequence without a default;
  \<^item> \<open>NoOptionsAvailable t\<close>: \<open>ValueError("No {t} options available")\<close>;
  \<^item> \<open>OptionNotFound t k d\<close>: \<open>ValueError("Option not found: {t} ${k} {d}DTE")\<close>.
\<close>

datatype error =
    ZeroDivisionError
  | EmptySequence
  | NoOptionsAvailable string
  | OptionNotFound string real int

text \<open>Python's \<open>int(x)\<close> on a float truncates towards zero.\<close>

definition py_int :: "real \<Rightarrow> int" where
  "py_int x = (if 0 \<le> x then \<lfloor>x\<rfloor> else \<lceil>x\<rceil>)"

section \<open>RiskManager\<close>

record RiskManager =
  account_size :: real
  risk_per_trade :: real
  max_contracts :: int
  max_risk_amount :: real

text \<open>\<open>RiskManager.__init__\<close>: the three arguments are stored and the risk budget is
  computed once.\<close>

definition RiskManager_init :: "real \<Rightarrow> real \<Rightarrow> int \<Rightarrow> RiskManager" where
  "RiskManager_init a r m =
     \<lparr>account_size = a, risk_per_trade = r, max_contracts = m, max_risk_amount = a * r\<rparr>"

text \<open>\<open>RiskManager.calculate_position_size\<close>. The division is only reached with a
  positive divisor.\<close>

definition calculate_position_size :: "RiskManager \<Rightarrow> real \<Rightarrow> int" where
  "calculate_position_size self max_loss_per_contract =
     (if max_loss_per_contract \<le> 0 then 1
      else
        let contracts = py_int (max_risk_amount self / max_loss_per_contract)
        in max 1 (min contracts (max_contracts self)))"

text \<open>The dictionary returned by \<open>RiskManager.validate_trade\<close>; the key
  \<open>'max_risk_amount'\<close> is the field \<open>val_max_risk_amount\<close>.\<close>

record validation =
  approved :: bool
  risk_reward_ratio :: real
  risk_percentage :: real
  val_max_risk_amount :: real
  warnings :: "string list"

text \<open>\<open>RiskManager.validate_trade\<close>. The first division is guarded by the source, the
  second one (by the account size) is not. \<open>self\<close> is only read.\<close>

definition validate_trade :: "RiskManager \<Rightarrow> real \<Rightarrow> real \<Rightarrow> error + validation" where
  "validate_trade self max_loss max_profit =
     (let rr = (if max_loss \<noteq> 0 then max_profit / \<bar>max_loss\<bar> else 0)
      in if account_size self = 0 then Inl ZeroDivisionError
         else
           let risk_pct = \<bar>max_loss\<bar> / account_size self
           in Inr \<lparr>approved = (risk_pct \<le> risk_per_trade self \<and> rr > 0.5),
                   risk_reward_ratio = rr,
                   risk_percentage = risk_pct,
                   val_max_risk_amount = max_risk_amount self,
                   warnings = []\<rparr>)"

text \<open>The specification's \<open>clamp(x, lo, hi)\<close>, written as the three cases it stands for.\<close>

definition spec_clamp :: "int \<Rightarrow> int \<Rightarrow> int \<Rightarrow> int" where
  "spec_clamp x lo hi = (if x < lo then lo else if hi < x then hi else x)"

section \<open>The strategy rule engine\<close>

text \<open>
  A feature snapshot is the Python dictionary from feature names to numbers.
  \<open>dict_get\<close> is \<open>dict.get(key, default)\<close>.
\<close>

type_synonym features = "string \<rightharpoonup> real"

definition dict_get :: "features \<Rightarrow> string \<Rightarrow> real \<Rightarrow> real" where
  "dict_get d k dflt = (case d k of Some v \<Rightarrow> v | None \<Rightarrow> dflt)"

text \<open>
  \<open>select_strategy_from_features\<close> is a sequence of blocks, each of which either returns
  a label or falls through to the next block. A block is embedded as a function to
  \<open>string option\<close>: \<open>Some l\<close> when the block returns \<open>l\<close>, \<open>None\<close> when control
  leaves the block without a \<open>return\<close>. The arguments are the five local variables
  \<open>iv_rank\<close>, \<open>adx\<close>, \<open>trend_regime\<close>, \<open>rsi\<close> and \<open>price_vs_sma\<close>.
\<close>

definition rule_1 :: "real \<Rightarrow> real \<Rightarrow> real \<Rightarrow> real \<Rightarrow> real \<Rightarrow> string option" where
  "rule_1 iv_rank adx trend_regime rsi price_vs_sma =
     (if (45 < iv_rank \<and> iv_rank < 60) \<and> trend_regime = 2
         \<and> (0.005 < \<bar>price_vs_sma\<bar> \<and> \<bar>price_vs_sma\<bar> < 0.012) \<and> adx < 15
      then Some ''DIAGONAL_SPREAD'' else None)"

definition rule_2 :: "real \<Rightarrow> real \<Rightarrow> real \<Rightarrow> real \<Rightarrow> real \<Rightarrow> string option" where
  "rule_2 iv_rank adx trend_regime rsi price_vs_sma =
     (if (52 < iv_rank \<and> iv_rank < 75) \<and> adx < 25 \<and> (45 < rsi \<and> rsi < 55)
      then Some ''IRON_CONDOR'' else None)"

definition rule_3 :: "real \<Rightarrow> real \<Rightarrow> real \<Rightarrow> real \<Rightarrow> real \<Rightarrow> string option" where
  "rule_3 iv_rank adx trend_regime rsi price_vs_sma =
     (if iv_rank > 68 \<and> adx < 20 then Some ''IRON_BUTTERFLY'' else None)"

definition rule_4 :: "real \<Rightarrow> real \<Rightarrow> real \<Rightarrow> real \<Rightarrow> real \<Rightarrow> string option" where
  "rule_4 iv_rank adx trend_regime rsi price_vs_sma =
     (if iv_rank < 46 \<and> adx > 21
      then (if trend_regime \<ge> 3 \<and> rsi > 54 then Some ''LONG_CALL'' else None)
      else None)"

definition rule_5 :: "real \<Rightarrow> real \<Rightarrow> real \<Rightarrow> real \<Rightarrow> real \<Rightarrow> string option" where
  "rule_5 iv_rank adx trend_regime rsi price_vs_sma =
     (if iv_rank < 48
      then (if adx > 20 \<and> (trend_regime \<le> 1 \<or> rsi < 42 \<or> price_vs_sma < - 0.025)
            then Some ''LONG_PUT''
            else if adx \<ge> 15 \<and> (rsi < 38 \<or> price_vs_sma < - 0.035)
            then Some ''LONG_PUT''
            else if rsi < 33
            then Some ''LONG_PUT''
            else None)
      else None)"

definition rule_6 :: "real \<Rightarrow> real \<Rightarrow> real \<Rightarrow> real \<Rightarrow> real \<Rightarrow> string option" where
  "rule_6 iv_rank adx trend_regime rsi price_vs_sma =
     (if (56 \<le> iv_rank \<and> iv_rank \<le> 63) \<and> trend_regime \<ge> 3 \<and> adx > 26 \<and> rsi > 62
      then Some ''BULL_CALL_SPREAD'' else None)"

definition rule_7 :: "real \<Rightarrow> real \<Rightarrow> real \<Rightarrow> real \<Rightarrow> real \<Rightarrow> string option" where
  "rule_7 iv_rank adx trend_regime rsi price_vs_sma =
     (if (54 \<le> iv_rank \<and> iv_rank \<le> 65) \<and> trend_regime \<le> 1 \<and> adx > 22 \<and> rsi < 45
      then Some ''BEAR_PUT_SPREAD'' else None)"

definition rule_8 :: "real \<Rightarrow> real \<Rightarrow> real \<Rightarrow> real \<Rightarrow> real \<Rightarrow> string option" where
  "rule_8 iv_rank adx trend_regime rsi price_vs_sma =
     (if iv_rank < 35 \<and> (45 < rsi \<and> rsi < 58)
      then (if adx < 17 then Some ''LONG_STRADDLE'' else None)
      else None)"

definition rule_9 :: "real \<Rightarrow> real \<Rightarrow> real \<Rightarrow> real \<Rightarrow> real \<Rightarrow> string option" where
  "rule_9 iv_rank adx trend_regime rsi price_vs_sma =
     (if iv_rank < 36 \<and> (44 < rsi \<and> rsi < 59)
      then (if adx < 25 then Some ''LONG_STRANGLE'' else None)
      else None)"

definition rule_10 :: "real \<Rightarrow> real \<Rightarrow> real \<Rightarrow> real \<Rightarrow> real \<Rightarrow> string option" where
  "rule_10 iv_rank adx trend_regime rsi price_vs_sma =
     (if iv_rank < 42 \<and> adx < 20 \<and> (42 < rsi \<and> rsi < 58) \<and> \<bar>price_vs_sma\<bar> < 0.022
      then Some ''CALENDAR_SPREAD'' else None)"

text \<open>The final block always returns.\<close>

definition final_fallback :: "real \<Rightarrow> real \<Rightarrow> real \<Rightarrow> real \<Rightarrow> real \<Rightarrow> string" where
  "final_fallback iv_rank adx trend_regime rsi price_vs_sma =
     (if iv_rank > 55 then ''IRON_CONDOR''
      else if iv_rank < 35 then
        (if rsi \<ge> 50 then ''LONG_CALL'' else ''LONG_PUT'')
      else
        (if rsi > 58 \<and> adx > 18 then ''BULL_CALL_SPREAD''
         else if rsi < 42 \<and> adx > 18 then ''BEAR_PUT_SPREAD''
         else ''IRON_CONDOR''))"

text \<open>Running the blocks one after the other: the first \<open>return\<close> reached ends the call.\<close>

fun run_blocks :: "string option list \<Rightarrow> string \<Rightarrow> string" where
  "run_blocks [] final = final"
| "run_blocks (None # rest) final = run_blocks rest final"
| "run_blocks (Some l # rest) final = l"

definition rule_blocks :: "real \<Rightarrow> real \<Rightarrow> real \<Rightarrow> real \<Rightarrow> real \<Rightarrow> string option list" where
  "rule_blocks iv_rank adx trend_regime rsi price_vs_sma =
     [rule_1 iv_rank adx trend_regime rsi price_vs_sma,
      rule_2 iv_rank adx trend_regime rsi price_vs_sma,
      rule_3 iv_rank adx trend_regime rsi price_vs_sma,
      rule_4 iv_rank adx trend_regime rsi price_vs_sma,
      rule_5 iv_rank adx trend_regime rsi price_vs_sma,
      rule_6 iv_rank adx trend_regime rsi price_vs_sma,
      rule_7 iv_rank adx trend_regime rsi price_vs_sma,
      rule_8 iv_rank adx trend_regime rsi price_vs_sma,
      rule_9 iv_rank adx trend_regime rsi price_vs_sma,
      rule_10 iv_rank adx trend_regime rsi price_vs_sma]"

definition select_strategy_from_features :: "features \<Rightarrow> string" where
  "select_strategy_from_features features =
     (let iv_rank = dict_get features ''iv_rank'' 50;
          adx = dict_get features ''adx_14'' 20;
          trend_regime = dict_get features ''trend_regime'' 2;
          rsi = dict_get features ''rsi_14'' 50;
          price_vs_sma = dict_get features ''price_vs_sma_20'' 0
      in run_blocks (rule_blocks iv_rank adx trend_regime rsi price_vs_sma)
           (final_fallback iv_rank adx trend_regime rsi price_vs_sma))"

text \<open>The ten labels of the closed enumeration of the specification.\<close>

definition strategy_labels :: "string list" where
  "strategy_labels =
     [''IRON_CONDOR'', ''IRON_BUTTERFLY'', ''LONG_CALL'', ''LONG_PUT'', ''BULL_CALL_SPREAD'',
      ''BEAR_PUT_SPREAD'', ''LONG_STRADDLE'', ''LONG_STRANGLE'', ''CALENDAR_SPREAD'',
      ''DIAGONAL_SPREAD'']"

section \<open>Option chains and Python's selection primitives\<close>

text \<open>
  The option chain is a pandas \<open>DataFrame\<close>: a sequence of rows in a fixed order. A row
  is embedded with the columns that the modelled functions read; the column \<open>'type'\<close>
  is the field \<open>otype\<close>. The remaining columns (volume, open interest, implied
  volatility, the other Greeks) are never read by them.
\<close>

record OptionContract =
  strike :: real
  otype :: string
  dte :: int
  bid :: real
  ask :: real
  delta :: real

type_synonym option_chain = "OptionContract list"

text \<open>
  Python's \<open>min(seq, key=k)\<close> scans the sequence from the left and keeps the current best
  element, replacing it only by a strictly smaller one; so does
  \<open>DataFrame.nsmallest(1, column)\<close> with its default \<open>keep='first'\<close>.
  \<open>min_from k best xs\<close> is that scan, started with \<open>best\<close>.
\<close>

fun min_from :: "('a \<Rightarrow> 'b::linorder) \<Rightarrow> 'a \<Rightarrow> 'a list \<Rightarrow> 'a" where
  "min_from k best [] = best"
| "min_from k best (x # xs) = (if k x < k best then min_from k x xs else min_from k best xs)"

text \<open>\<open>py_min k xs\<close> is \<open>None\<close> on the empty sequence, where \<open>min\<close> has nothing to
  return.\<close>

definition py_min :: "('a \<Rightarrow> 'b::linorder) \<Rightarrow> 'a list \<Rightarrow> 'a option" where
  "py_min k xs = (case xs of [] \<Rightarrow> None | x # rest \<Rightarrow> Some (min_from k x rest))"

text \<open>\<open>sorted(option_chain['dte'].unique())\<close>: the distinct expirations, ascending.\<close>

definition available_dtes :: "option_chain \<Rightarrow> int list" where
  "available_dtes option_chain = sort (remdups (map dte option_chain))"

text \<open>Sequencing of calls that may raise: the first error ends the computation.\<close>

definition bindE :: "error + 'a \<Rightarrow> ('a \<Rightarrow> error + 'b) \<Rightarrow> error + 'b" where
  "bindE m f = (case m of Inl e \<Rightarrow> Inl e | Inr x \<Rightarrow> f x)"

section \<open>ParameterGenerator\<close>

record ParameterGenerator =
  risk_manager :: RiskManager

text \<open>\<open>ParameterGenerator._select_optimal_dte\<close>. The final \<open>min\<close> has no default and
  raises on a chain without rows.\<close>

definition select_optimal_dte :: "option_chain \<Rightarrow> string \<Rightarrow> real \<Rightarrow> string \<Rightarrow> error + int" where
  "select_optimal_dte option_chain strategy iv_rank trend_strength =
     (let target =
        (if strategy \<in> set [''IRON_CONDOR'', ''IRON_BUTTERFLY''] then
           (if iv_rank > 70 then 7 else if iv_rank > 50 then 14 else 21)
         else if strategy \<in> set [''LONG_CALL'', ''LONG_PUT''] then
           (if iv_rank < 30 \<and> trend_strength = ''VERY_STRONG'' then 45
            else if iv_rank < 40 then 30
            else 21)
         else if strategy \<in> set [''BULL_CALL_SPREAD'', ''BEAR_PUT_SPREAD''] then
           (if trend_strength = ''VERY_STRONG'' then 30 else 21)
         else 30)
      in case py_min (\<lambda>x. \<bar>x - target\<bar>) (available_dtes option_chain) of
           None \<Rightarrow> Inl EmptySequence
         | Some d \<Rightarrow> Inr d)"

text \<open>\<open>ParameterGenerator._classify_trend_strength\<close>.\<close>

definition classify_trend_strength :: "features \<Rightarrow> string" where
  "classify_trend_strength features =
     (let rsi = dict_get features ''rsi_14'' 50;
          adx = dict_get features ''adx_14'' 20;
          trend_regime = dict_get features ''trend_regime'' 2
      in if adx > 30 \<and> ((rsi > 65 \<and> trend_regime \<ge> 4) \<or> (rsi < 35 \<and> trend_regime \<le> 0))
         then ''VERY_STRONG''
         else if adx > 25 \<and> ((rsi > 60 \<and> trend_regime \<ge> 3) \<or> (rsi < 40 \<and> trend_regime \<le> 1))
         then ''STRONG''
         else if adx > 20 then ''MODERATE''
         else ''WEAK'')"

text \<open>The rows of the requested type and expiration, and the rows of the requested type
  that the strike selection falls back to. Both are new frames; the chain is left as it
  is.\<close>

definition rows_of_type_dte :: "option_chain \<Rightarrow> string \<Rightarrow> int \<Rightarrow> option_chain" where
  "rows_of_type_dte option_chain option_type d =
     filter (\<lambda>c. otype c = option_type \<and> dte c = d) option_chain"

definition rows_of_type :: "option_chain \<Rightarrow> string \<Rightarrow> option_chain" where
  "rows_of_type option_chain option_type = filter (\<lambda>c. otype c = option_type) option_chain"

text \<open>The frame \<open>filtered\<close> of both strike selections, after the fallback.\<close>

definition filtered_rows :: "option_chain \<Rightarrow> string \<Rightarrow> int \<Rightarrow> option_chain" where
  "filtered_rows option_chain option_type d =
     (let filtered = rows_of_type_dte option_chain option_type d
      in if length filtered = 0 then rows_of_type option_chain option_type else filtered)"

text \<open>The column \<open>delta_diff\<close> that \<open>_find_strike_by_delta\<close> adds to its copy.\<close>

definition delta_diff :: "real \<Rightarrow> OptionContract \<Rightarrow> real" where
  "delta_diff target_delta c = \<bar>\<bar>delta c\<bar> - \<bar>target_delta\<bar>\<bar>"

text \<open>\<open>ParameterGenerator._find_strike_by_delta\<close>: on a frame without rows it raises,
  otherwise \<open>nsmallest(1, 'delta_diff')\<close> picks the row and its strike is returned.\<close>

definition find_strike_by_delta :: "option_chain \<Rightarrow> real \<Rightarrow> string \<Rightarrow> int \<Rightarrow> error + real" where
  "find_strike_by_delta option_chain target_delta option_type d =
     (case filtered_rows option_chain option_type d of
        [] \<Rightarrow> Inl (NoOptionsAvailable option_type)
      | c # rest \<Rightarrow> Inr (strike (min_from (delta_diff target_delta) c rest)))"

text \<open>The column \<open>price_diff\<close> that \<open>_find_strike_by_price\<close> adds to its copy.\<close>

definition price_diff :: "real \<Rightarrow> OptionContract \<Rightarrow> real" where
  "price_diff target_price c = \<bar>strike c - target_price\<bar>"

text \<open>\<open>ParameterGenerator._find_strike_by_price\<close>.\<close>

definition find_strike_by_price :: "option_chain \<Rightarrow> real \<Rightarrow> string \<Rightarrow> int \<Rightarrow> error + real" where
  "find_strike_by_price option_chain target_price option_type d =
     (case filtered_rows option_chain option_type d of
        [] \<Rightarrow> Inl (NoOptionsAvailable option_type)
      | c # rest \<Rightarrow> Inr (strike (min_from (price_diff target_price) c rest)))"

text \<open>The rows that \<open>_get_option_cost\<close> and \<open>_get_option_bid\<close> select.\<close>

definition rows_at :: "option_chain \<Rightarrow> real \<Rightarrow> string \<Rightarrow> int \<Rightarrow> option_chain" where
  "rows_at option_chain k option_type d =
     filter (\<lambda>c. strike c = k \<and> otype c = option_type \<and> dte c = d) option_chain"

text \<open>\<open>ParameterGenerator._get_option_cost\<close>: the ask of the first matching row.\<close>

definition get_option_cost :: "option_chain \<Rightarrow> real \<Rightarrow> string \<Rightarrow> int \<Rightarrow> error + real" where
  "get_option_cost option_chain k option_type d =
     (case rows_at option_chain k option_type d of
        [] \<Rightarrow> Inl (OptionNotFound option_type k d)
      | c # _ \<Rightarrow> Inr (ask c))"

text \<open>\<open>ParameterGenerator._get_option_bid\<close>: the bid of the first matching row.\<close>

definition get_option_bid :: "option_chain \<Rightarrow> real \<Rightarrow> string \<Rightarrow> int \<Rightarrow> error + real" where
  "get_option_bid option_chain k option_type d =
     (case rows_at option_chain k option_type d of
        [] \<Rightarrow> Inl (OptionNotFound option_type k d)
      | c # _ \<Rightarrow> Inr (bid c))"

section \<open>The strategy builders\<close>

text \<open>The dictionary returned by \<open>_generate_long_call\<close>, one field for each key.\<close>

record long_call_trade =
  lc_strategy :: string
  lc_action :: string
  lc_option_type :: string
  lc_strike :: real
  lc_dte :: int
  lc_contracts :: int
  lc_cost_per_contract :: real
  lc_total_cost :: real
  lc_max_loss :: real
  lc_max_profit :: string
  lc_breakeven :: real
  lc_target_delta :: real
  lc_iv_rank :: real
  lc_trend_strength :: string

text \<open>\<open>ParameterGenerator._generate_long_call\<close>. The argument \<open>current_price\<close> is not
  used by the source.\<close>

definition generate_long_call ::
  "ParameterGenerator \<Rightarrow> option_chain \<Rightarrow> features \<Rightarrow> real \<Rightarrow> error + long_call_trade" where
  "generate_long_call self option_chain features current_price =
     (let iv_rank = dict_get features ''iv_rank'' 50;
          trend_strength = classify_trend_strength features
      in bindE (select_optimal_dte option_chain ''LONG_CALL'' iv_rank trend_strength) (\<lambda>d.
         let target_delta = (if iv_rank < 30 then 0.50 else if iv_rank < 40 then 0.40 else 0.30)
         in bindE (find_strike_by_delta option_chain target_delta ''call'' d) (\<lambda>k.
            bindE (get_option_cost option_chain k ''call'' d) (\<lambda>cost.
            let max_loss_per_contract = cost * 100;
                contracts = calculate_position_size (risk_manager self) max_loss_per_contract;
                total_cost = cost * 100 * real_of_int contracts
            in Inr \<lparr>lc_strategy = ''LONG_CALL'',
                    lc_action = ''BUY'',
                    lc_option_type = ''CALL'',
                    lc_strike = k,
                    lc_dte = d,
                    lc_contracts = contracts,
                    lc_cost_per_contract = cost * 100,
                    lc_total_cost = total_cost,
                    lc_max_loss = total_cost,
                    lc_max_profit = ''Unlimited'',
                    lc_breakeven = k + cost,
                    lc_target_delta = target_delta,
                    lc_iv_rank = iv_rank,
                    lc_trend_strength = trend_strength\<rparr>))))"

text \<open>The dictionary returned by \<open>_generate_bull_call_spread\<close>.\<close>

record bull_call_spread_trade =
  bcs_strategy :: string
  bcs_long_strike :: real
  bcs_short_strike :: real
  bcs_dte :: int
  bcs_contracts :: int
  bcs_net_debit :: real
  bcs_total_debit :: real
  bcs_max_profit :: real
  bcs_total_max_profit :: real
  bcs_max_loss :: real
  bcs_total_max_loss :: real
  bcs_breakeven :: real
  bcs_spread_width :: real
  bcs_risk_reward_ratio :: real
  bcs_iv_rank :: real

text \<open>\<open>ParameterGenerator._generate_bull_call_spread\<close>.\<close>

definition generate_bull_call_spread ::
  "ParameterGenerator \<Rightarrow> option_chain \<Rightarrow> features \<Rightarrow> real \<Rightarrow> error + bull_call_spread_trade" where
  "generate_bull_call_spread self option_chain features current_price =
     (let iv_rank = dict_get features ''iv_rank'' 50;
          trend_strength = classify_trend_strength features
      in bindE (select_optimal_dte option_chain ''BULL_CALL_SPREAD'' iv_rank trend_strength) (\<lambda>d.
         let (long_delta, short_delta) = (if iv_rank < 50 then (0.50, 0.30) else (0.60, 0.25))
         in bindE (find_strike_by_delta option_chain long_delta ''call'' d) (\<lambda>long_strike.
            bindE (find_strike_by_delta option_chain short_delta ''call'' d) (\<lambda>short_strike.
            bindE (get_option_cost option_chain long_strike ''call'' d) (\<lambda>long_cost.
            bindE (get_option_bid option_chain short_strike ''call'' d) (\<lambda>short_credit.
            let net_debit = (long_cost - short_credit) * 100;
                spread_width = (short_strike - long_strike) * 100;
                max_profit = spread_width - net_debit;
                contracts = calculate_position_size (risk_manager self) net_debit;
                total_debit = net_debit * real_of_int contracts;
                total_max_profit = max_profit * real_of_int contracts
            in Inr \<lparr>bcs_strategy = ''BULL_CALL_SPREAD'',
                    bcs_long_strike = long_strike,
                    bcs_short_strike = short_strike,
                    bcs_dte = d,
                    bcs_contracts = contracts,
                    bcs_net_debit = net_debit,
                    bcs_total_debit = total_debit,
                    bcs_max_profit = max_profit,
                    bcs_total_max_profit = total_max_profit,
                    bcs_max_loss = net_debit,
                    bcs_total_max_loss = total_debit,
                    bcs_breakeven = long_strike + (net_debit / 100),
                    bcs_spread_width = spread_width / 100,
                    bcs_risk_reward_ratio = (if net_debit > 0 then max_profit / net_debit else 0),
                    bcs_iv_rank = iv_rank\<rparr>))))))"

text \<open>
  The choice of the two expirations, shared word for word by \<open>_generate_calendar_spread\<close>
  and \<open>_generate_diagonal_spread\<close>: \<open>near_dte\<close> is the \<open>min\<close> without default, \<open>far_dte\<close>
  the \<open>min\<close> over the list comprehension with \<open>default=near_dte + 30\<close>.
\<close>

definition select_near_dte :: "option_chain \<Rightarrow> error + int" where
  "select_near_dte option_chain =
     (case py_min (\<lambda>x. \<bar>x - 21\<bar>) (available_dtes option_chain) of
        None \<Rightarrow> Inl EmptySequence
      | Some d \<Rightarrow> Inr d)"

definition select_far_dte :: "option_chain \<Rightarrow> int \<Rightarrow> int" where
  "select_far_dte option_chain near_dte =
     (case py_min (\<lambda>x. \<bar>x - 45\<bar>) (filter (\<lambda>d. d > near_dte + 14) (available_dtes option_chain)) of
        None \<Rightarrow> near_dte + 30
      | Some d \<Rightarrow> d)"

text \<open>\<open>str.upper()\<close> on the two option types it is applied to.\<close>

definition upper :: "string \<Rightarrow> string" where
  "upper t = (if t = ''call'' then ''CALL'' else if t = ''put'' then ''PUT'' else t)"

text \<open>The dictionary returned by \<open>_generate_calendar_spread\<close>.\<close>

record calendar_spread_trade =
  cal_strategy :: string
  cal_strike :: real
  cal_option_type :: string
  cal_near_dte :: int
  cal_far_dte :: int
  cal_contracts :: int
  cal_net_debit :: real
  cal_total_debit :: real
  cal_max_loss :: real
  cal_total_max_loss :: real
  cal_max_profit :: string
  cal_note :: string
  cal_iv_rank :: real

text \<open>\<open>ParameterGenerator._generate_calendar_spread\<close>.\<close>

definition generate_calendar_spread ::
  "ParameterGenerator \<Rightarrow> option_chain \<Rightarrow> features \<Rightarrow> real \<Rightarrow> error + calendar_spread_trade" where
  "generate_calendar_spread self option_chain features current_price =
     (let iv_rank = dict_get features ''iv_rank'' 50
      in bindE (select_near_dte option_chain) (\<lambda>near_dte.
         let far_dte = select_far_dte option_chain near_dte
         in bindE (find_strike_by_delta option_chain 0.50 ''call'' near_dte) (\<lambda>atm_strike.
            let rsi = dict_get features ''rsi_14'' 50;
                option_type = (if rsi > 50 then ''call'' else ''put'')
            in bindE (get_option_bid option_chain atm_strike option_type near_dte) (\<lambda>near_credit.
               bindE (get_option_cost option_chain atm_strike option_type far_dte) (\<lambda>far_cost.
               let net_debit = (far_cost - near_credit) * 100;
                   contracts = calculate_position_size (risk_manager self) net_debit;
                   total_debit = net_debit * real_of_int contracts
               in Inr \<lparr>cal_strategy = ''CALENDAR_SPREAD'',
                       cal_strike = atm_strike,
                       cal_option_type = upper option_type,
                       cal_near_dte = near_dte,
                       cal_far_dte = far_dte,
                       cal_contracts = contracts,
                       cal_net_debit = net_debit,
                       cal_total_debit = total_debit,
                       cal_max_loss = net_debit,
                       cal_total_max_loss = total_debit,
                       cal_max_profit = ''Variable (depends on IV expansion)'',
                       cal_note = ''Profit maximized if price stays near strike at near expiration'',
                       cal_iv_rank = iv_rank\<rparr>)))))"

text \<open>The dictionary returned by \<open>_generate_diagonal_spread\<close>.\<close>

record diagonal_spread_trade =
  diag_strategy :: string
  diag_option_type :: string
  diag_long_strike :: real
  diag_short_strike :: real
  diag_near_dte :: int
  diag_far_dte :: int
  diag_contracts :: int
  diag_net_debit :: real
  diag_total_debit :: real
  diag_max_loss :: real
  diag_total_max_loss :: real
  diag_max_profit :: string
  diag_bias :: string
  diag_note :: string
  diag_iv_rank :: real

text \<open>\<open>ParameterGenerator._generate_diagonal_spread\<close>.\<close>

definition generate_diagonal_spread ::
  "ParameterGenerator \<Rightarrow> option_chain \<Rightarrow> features \<Rightarrow> real \<Rightarrow> error + diagonal_spread_trade" where
  "generate_diagonal_spread self option_chain features current_price =
     (let iv_rank = dict_get features ''iv_rank'' 50;
          rsi = dict_get features ''rsi_14'' 50
      in bindE (select_near_dte option_chain) (\<lambda>near_dte.
         let far_dte = select_far_dte option_chain near_dte;
             (option_type, long_delta, short_delta) =
               (if rsi > 55 then (''call'', 0.50, 0.30) else (''put'', - 0.50, - 0.30))
         in bindE (find_strike_by_delta option_chain long_delta option_type far_dte) (\<lambda>long_strike.
            bindE (find_strike_by_delta option_chain short_delta option_type near_dte) (\<lambda>short_strike.
            bindE (get_option_cost option_chain long_strike option_type far_dte) (\<lambda>long_cost.
            bindE (get_option_bid option_chain short_strike option_type near_dte) (\<lambda>short_credit.
            let net_debit = (long_cost - short_credit) * 100;
                contracts = calculate_position_size (risk_manager self) net_debit;
                total_debit = net_debit * real_of_int contracts
            in Inr \<lparr>diag_strategy = ''DIAGONAL_SPREAD'',
                    diag_option_type = upper option_type,
                    diag_long_strike = long_strike,
                    diag_short_strike = short_strike,
                    diag_near_dte = near_dte,
                    diag_far_dte = far_dte,
                    diag_contracts = contracts,
                    diag_net_debit = net_debit,
                    diag_total_debit = total_debit,
                    diag_max_loss = net_debit,
                    diag_total_max_loss = total_debit,
                    diag_max_profit = ''Variable (depends on price movement and IV)'',
                    diag_bias = (if option_type = ''call'' then ''Bullish'' else ''Bearish''),
                    diag_note = ''Roll short option at expiration to continue position'',
                    diag_iv_rank = iv_rank\<rparr>))))))"

section \<open>Snapshots with the defaults written in\<close>

text \<open>
  The default that the source passes to \<open>features.get\<close> for each of the five keys read
  by the rule engine, and the snapshot in which every absent one of these keys is
  present with that default. Both serve to state what an absent key amounts to.
\<close>

definition default_value :: "string \<Rightarrow> real option" where
  "default_value k =
     (if k = ''iv_rank'' then Some 50
      else if k = ''adx_14'' then Some 20
      else if k = ''trend_regime'' then Some 2
      else if k = ''rsi_14'' then Some 50
      else if k = ''price_vs_sma_20'' then Some 0
      else None)"

definition with_defaults :: "features \<Rightarrow> features" where
  "with_defaults features = (\<lambda>k. case features k of Some v \<Rightarrow> Some v | None \<Rightarrow> default_value k)"

text \<open>Concrete inputs used below: a generator with the default risk manager and a chain
  of three contracts expiring in 21 days.\<close>

definition default_generator :: ParameterGenerator where
  "default_generator = \<lparr>risk_manager = RiskManager_init 10000 0.02 10\<rparr>"

definition chain_21 :: option_chain where
  "chain_21 =
     [\<lparr>strike = 100, otype = ''call'', dte = 21, bid = 5.5, ask = 6, delta = 0.5\<rparr>,
      \<lparr>strike = 110, otype = ''call'', dte = 21, bid = 2, ask = 2.5, delta = 0.3\<rparr>,
      \<lparr>strike = 100, otype = ''put'', dte = 21, bid = 4, ask = 4.5, delta = - 0.5\<rparr>]"

text \<open>Three snapshots: one that no rule block matches, and the two scenarios of the
  specification (the second scenario names four keys, the first one three).\<close>

definition snapshot_medium_iv :: features where
  "snapshot_medium_iv =
     [''iv_rank'' \<mapsto> 50, ''adx_14'' \<mapsto> 30, ''trend_regime'' \<mapsto> 2, ''rsi_14'' \<mapsto> 60]"

definition snapshot_scenario_1 :: features where
  "snapshot_scenario_1 = [''iv_rank'' \<mapsto> 60, ''adx_14'' \<mapsto> 15, ''rsi_14'' \<mapsto> 50]"

definition snapshot_scenario_2 :: features where
  "snapshot_scenario_2 =
     [''iv_rank'' \<mapsto> 30, ''adx_14'' \<mapsto> 25, ''trend_regime'' \<mapsto> 4, ''rsi_14'' \<mapsto> 60]"

text \<open>
  The rows among which a strike is selected, in the words of the specification: the
  contracts of the requested type and expiration, or, when the chain has none, the
  contracts of the requested type.
\<close>

definition is_candidate :: "option_chain \<Rightarrow> string \<Rightarrow> int \<Rightarrow> OptionContract \<Rightarrow> bool" where
  "is_candidate option_chain option_type d c =
     (if \<exists>c'\<in>set option_chain. otype c' = option_type \<and> dte c' = d
      then otype c = option_type \<and> dte c = d
      else otype c = option_type)"

text \<open>A chain in which two calls expiring in 21 days are equally far from a delta of
  one half.\<close>

definition chain_tie :: option_chain where
  "chain_tie =
     [\<lparr>strike = 95, otype = ''call'', dte = 21, bid = 8, ask = 8.5, delta = 0.75\<rparr>,
      \<lparr>strike = 105, otype = ''call'', dte = 21, bid = 3, ask = 3.5, delta = 0.25\<rparr>,
      \<lparr>strike = 100, otype = ''call'', dte = 30, bid = 6, ask = 6.5, delta = 0.5\<rparr>,
      \<lparr>strike = 100, otype = ''put'', dte = 21, bid = 4, ask = 4.5, delta = - 0.5\<rparr>]"

text \<open>Further concrete inputs: the snapshot without any key, a snapshot of low implied
  volatility in a quiet market (it meets the conditions of rule 8 and of rule 9), a snapshot
  of high implied volatility, a snapshot with a bullish RSI, a chain that holds puts only, and a chain
  with two expirations.\<close>

definition empty_snapshot :: features where
  "empty_snapshot = Map.empty"

definition snapshot_low_iv_quiet :: features where
  "snapshot_low_iv_quiet = [''iv_rank'' \<mapsto> 30, ''adx_14'' \<mapsto> 10, ''rsi_14'' \<mapsto> 50]"

definition snapshot_high_iv :: features where
  "snapshot_high_iv = [''iv_rank'' \<mapsto> 70, ''adx_14'' \<mapsto> 10]"

definition snapshot_bullish :: features where
  "snapshot_bullish = [''rsi_14'' \<mapsto> 60]"

definition chain_puts :: option_chain where
  "chain_puts =
     [\<lparr>strike = 100, otype = ''put'', dte = 21, bid = 4, ask = 4.5, delta = - 0.5\<rparr>,
      \<lparr>strike = 95, otype = ''put'', dte = 30, bid = 3, ask = 3.5, delta = - 0.3\<rparr>]"

definition chain_two_expiries :: option_chain where
  "chain_two_expiries =
     [\<lparr>strike = 100, otype = ''call'', dte = 21, bid = 5.5, ask = 6, delta = 0.5\<rparr>,
      \<lparr>strike = 100, otype = ''call'', dte = 45, bid = 8, ask = 8.5, delta = 0.5\<rparr>,
      \<lparr>strike = 100, otype = ''call'', dte = 60, bid = 9, ask = 9.5, delta = 0.5\<rparr>]"

section \<open>Properties of the RiskManager\<close>

lemma py_int_nonneg: "0 \<le> x \<Longrightarrow> py_int x = \<lfloor>x\<rfloor>"
  by (simp add: py_int_def)

text \<open>
  Claim C1. For a RiskManager constructed with a positive account size, a risk fraction in
  \<open>(0, 1]\<close> and a positive contract limit, \<open>calculate_position_size\<close> returns 1 for a
  non-positive loss per contract and otherwise the floor of
  \<open>account_size * risk_per_trade / max_loss_per_contract\<close> clamped to
  \<open>[1, max_contracts]\<close>; the result always lies between 1 and \<open>max_contracts\<close>.
\<close>

theorem calculate_position_size_clamped:
  assumes "0 < a" and "0 < r" and "r \<le> 1" and "1 \<le> mc"
  shows "calculate_position_size (RiskManager_init a r mc) m =
           (if m \<le> 0 then 1 else spec_clamp \<lfloor>a * r / m\<rfloor> 1 mc)
         \<and> 1 \<le> calculate_position_size (RiskManager_init a r mc) m
         \<and> calculate_position_size (RiskManager_init a r mc) m \<le> mc"
proof (cases "m \<le> 0")
  case True
  with assms show ?thesis
    by (simp add: calculate_position_size_def)
next
  case False
  define q where "q = \<lfloor>a * r / m\<rfloor>"
  from False assms have "0 \<le> a * r / m"
    by simp
  then have "py_int (a * r / m) = q"
    unfolding q_def by (rule py_int_nonneg)
  with False have size: "calculate_position_size (RiskManager_init a r mc) m = max 1 (min q mc)"
    by (simp add: calculate_position_size_def RiskManager_init_def)
  from \<open>1 \<le> mc\<close> have "max 1 (min q mc) = spec_clamp q 1 mc"
    by (auto simp: spec_clamp_def)
  moreover from \<open>1 \<le> mc\<close> have "1 \<le> max 1 (min q mc)" and "max 1 (min q mc) \<le> mc"
    by auto
  ultimately show ?thesis
    using False size unfolding q_def by simp
qed

theorem calculate_position_size_clamped_witness:
  "calculate_position_size (RiskManager_init 10000 0.02 10) 150 = 1
   \<and> calculate_position_size (RiskManager_init 10000 0.02 10) 30 = 6
   \<and> calculate_position_size (RiskManager_init 10000 0.02 10) 1 = 10
   \<and> calculate_position_size (RiskManager_init 10000 0.02 10) (-5) = 1"
proof -
  have f1: "\<lfloor>10000 * 0.02 / 150 :: real\<rfloor> = 1" by (simp add: floor_eq_iff)
  have f2: "\<lfloor>10000 * 0.02 / 30 :: real\<rfloor> = 6" by (simp add: floor_eq_iff)
  show ?thesis
    using calculate_position_size_clamped [of 10000 "0.02" 10 150]
      calculate_position_size_clamped [of 10000 "0.02" 10 30]
      calculate_position_size_clamped [of 10000 "0.02" 10 1]
      calculate_position_size_clamped [of 10000 "0.02" 10 "-5"]
      f1 f2
    by (simp add: spec_clamp_def)
qed

text \<open>
  Claim C2. For a RiskManager with a positive account size, \<open>validate_trade\<close> returns
  the risk/reward ratio \<open>max_profit / |max_loss|\<close> (0 when \<open>max_loss\<close> is 0, without a
  division error), the risk percentage \<open>|max_loss| / account_size\<close>, and approves exactly
  when the risk percentage is within \<open>risk_per_trade\<close> and the ratio exceeds 0.5. With
  an account of 10000 and 2 percent risk, a loss of 300 against a profit of 100 has ratio
  1/3 and is rejected. The RiskManager is an argument that is only read: the call has no
  other result than the returned dictionary.
\<close>

theorem validate_trade_result:
  assumes "0 < a"
  shows "(\<exists>v. validate_trade (RiskManager_init a r mc) max_loss max_profit = Inr v
              \<and> risk_reward_ratio v = (if max_loss = 0 then 0 else max_profit / \<bar>max_loss\<bar>)
              \<and> risk_percentage v = \<bar>max_loss\<bar> / a
              \<and> (approved v \<longleftrightarrow> risk_percentage v \<le> r \<and> risk_reward_ratio v > 0.5))
         \<and> (\<exists>v. validate_trade (RiskManager_init 10000 0.02 mc) (- 300) 100 = Inr v
              \<and> risk_reward_ratio v = 1 / 3 \<and> \<not> approved v)"
  using assms by (simp add: validate_trade_def RiskManager_init_def Let_def)

theorem validate_trade_result_witness:
  "(0::real) < 10000
   \<and> (\<exists>v. validate_trade (RiskManager_init 10000 0.02 10) (- 100) 100 = Inr v
          \<and> risk_reward_ratio v = 1 \<and> risk_percentage v = 1 / 100 \<and> approved v)"
  using validate_trade_result [of 10000 "0.02" 10 "- 100" 100] by auto

text \<open>
  Claim C9. A trade whose maximum loss is reported as 0 is never approved: the ratio is
  set to 0, which is not above 0.5, although the risk percentage is 0 and within any
  non-negative risk budget. The account size divides the loss, so the RiskManager is one
  with a non-zero account size (the constructor's contract asks for a positive one).
\<close>

theorem validate_trade_zero_loss_rejected:
  assumes "account_size rm \<noteq> 0"
  shows "\<exists>v. validate_trade rm 0 max_profit = Inr v
             \<and> \<not> approved v
             \<and> risk_reward_ratio v = 0
             \<and> risk_percentage v = 0
             \<and> (0 \<le> risk_per_trade rm \<longrightarrow> risk_percentage v \<le> risk_per_trade rm)"
  using assms by (simp add: validate_trade_def Let_def)

theorem validate_trade_zero_loss_rejected_witness:
  "account_size (RiskManager_init 10000 0.02 10) \<noteq> 0
   \<and> 0 \<le> risk_per_trade (RiskManager_init 10000 0.02 10)
   \<and> (\<exists>v. validate_trade (RiskManager_init 10000 0.02 10) 0 500 = Inr v
          \<and> \<not> approved v \<and> risk_percentage v \<le> risk_per_trade (RiskManager_init 10000 0.02 10))"
proof -
  have a: "account_size (RiskManager_init 10000 0.02 10) \<noteq> 0"
    by (simp add: RiskManager_init_def)
  have b: "0 \<le> risk_per_trade (RiskManager_init 10000 0.02 10)"
    by (simp add: RiskManager_init_def)
  from validate_trade_zero_loss_rejected [OF a, of 500] a b show ?thesis
    by blast
qed

section \<open>Properties of the rule engine\<close>

lemmas rule_defs = rule_1_def rule_2_def rule_3_def rule_4_def rule_5_def rule_6_def
  rule_7_def rule_8_def rule_9_def rule_10_def

lemma run_blocks_first_match:
  "k < length bs \<Longrightarrow> bs ! k = Some l \<Longrightarrow> \<forall>j<k. bs ! j = None \<Longrightarrow> run_blocks bs d = l"
proof (induction bs d arbitrary: k rule: run_blocks.induct)
  case (1 final)
  then show ?case by simp
next
  case (2 rest final)
  from "2.prems" have "k \<noteq> 0" by (cases k) auto
  then obtain k' where k: "k = Suc k'" by (cases k) auto
  with "2.prems" have "k' < length rest" "rest ! k' = Some l" "\<forall>j<k'. rest ! j = None"
    by auto
  then show ?case using "2.IH" by simp
next
  case (3 l' rest final)
  then have "k = 0" by (cases k) auto
  with 3 show ?case by simp
qed

lemma run_blocks_no_match:
  "\<forall>b\<in>set bs. b = None \<Longrightarrow> run_blocks bs d = d"
  by (induction bs d rule: run_blocks.induct) auto

lemma run_blocks_in:
  "\<forall>l. Some l \<in> set bs \<longrightarrow> l \<in> S \<Longrightarrow> d \<in> S \<Longrightarrow> run_blocks bs d \<in> S"
  by (induction bs d rule: run_blocks.induct) auto

lemma rule_blocks_labels:
  "Some l \<in> set (rule_blocks iv adx tr rsi pvs) \<Longrightarrow> l \<in> set strategy_labels"
  by (auto simp: rule_blocks_def rule_defs strategy_labels_def split: if_splits)

lemma final_fallback_label:
  "final_fallback iv adx tr rsi pvs \<in> set strategy_labels"
  by (simp add: final_fallback_def strategy_labels_def)

lemma select_empty_snapshot:
  "select_strategy_from_features empty_snapshot = ''IRON_CONDOR''"
  by (simp add: select_strategy_from_features_def dict_get_def rule_blocks_def rule_defs
      final_fallback_def empty_snapshot_def)

lemma dict_get_with_defaults:
  "default_value k = Some d \<Longrightarrow> dict_get (with_defaults f) k d = dict_get f k d"
  by (simp add: dict_get_def with_defaults_def split: option.splits)

lemma default_value_simps:
  "default_value ''iv_rank'' = Some 50"
  "default_value ''adx_14'' = Some 20"
  "default_value ''trend_regime'' = Some 2"
  "default_value ''rsi_14'' = Some 50"
  "default_value ''price_vs_sma_20'' = Some 0"
  by (simp_all add: default_value_def)

lemma classify_with_defaults:
  "classify_trend_strength (with_defaults f) = classify_trend_strength f"
  by (simp add: classify_trend_strength_def dict_get_with_defaults default_value_simps)

text \<open>
  Claim C3, as the specification states it: a snapshot that lacks a key read by the rule
  engine makes strategy selection and parameter generation fail with a missing-feature
  error. The code does not: on the snapshot without any key the selection returns
  \<open>IRON_CONDOR\<close>, and the long call builder returns a trade computed with
  \<open>iv_rank = 50\<close> and the trend strength \<open>WEAK\<close> of the defaulted indicators.
\<close>

theorem missing_feature_counterexample:
  "select_strategy_from_features empty_snapshot = ''IRON_CONDOR''
   \<and> generate_long_call default_generator chain_21 empty_snapshot 105 =
       Inr \<lparr>lc_strategy = ''LONG_CALL'', lc_action = ''BUY'', lc_option_type = ''CALL'',
            lc_strike = 110, lc_dte = 21, lc_contracts = 1, lc_cost_per_contract = 250,
            lc_total_cost = 250, lc_max_loss = 250, lc_max_profit = ''Unlimited'',
            lc_breakeven = 112.5, lc_target_delta = 0.3, lc_iv_rank = 50,
            lc_trend_strength = ''WEAK''\<rparr>"
proof -
  have d: "select_optimal_dte chain_21 ''LONG_CALL'' 50 ''WEAK'' = Inr 21"
    by (simp add: select_optimal_dte_def available_dtes_def chain_21_def py_min_def)
  have k: "find_strike_by_delta chain_21 0.30 ''call'' 21 = Inr 110"
    by (simp add: find_strike_by_delta_def filtered_rows_def rows_of_type_dte_def
        rows_of_type_def chain_21_def delta_diff_def)
  have c: "get_option_cost chain_21 110 ''call'' 21 = Inr 2.5"
    by (simp add: get_option_cost_def rows_at_def chain_21_def)
  have n: "calculate_position_size (risk_manager default_generator) 250 = 1"
    by (simp add: calculate_position_size_def default_generator_def RiskManager_init_def
        py_int_def floor_eq_iff)
  have t: "classify_trend_strength empty_snapshot = ''WEAK''"
    by (simp add: classify_trend_strength_def dict_get_def empty_snapshot_def)
  have i: "dict_get empty_snapshot ''iv_rank'' 50 = 50"
    by (simp add: dict_get_def empty_snapshot_def)
  show ?thesis
    using select_empty_snapshot d k c n
    by (simp add: generate_long_call_def i t bindE_def)
qed

text \<open>
  Claim C3, amended. Strategy selection and the long call builder raise no
  missing-feature error: an absent key is read as the default that the source passes to
  \<open>features.get\<close> (\<open>iv_rank\<close> 50, \<open>adx_14\<close> 20, \<open>trend_regime\<close> 2, \<open>rsi_14\<close> 50,
  \<open>price_vs_sma_20\<close> 0), so the result on any snapshot is the result on the snapshot
  with these defaults written in for the absent keys.
\<close>

theorem absent_feature_reads_default:
  "select_strategy_from_features f = select_strategy_from_features (with_defaults f)
   \<and> generate_long_call self ch f p = generate_long_call self ch (with_defaults f) p"
proof -
  have "select_strategy_from_features f = select_strategy_from_features (with_defaults f)"
    by (simp add: select_strategy_from_features_def dict_get_with_defaults default_value_simps)
  moreover
  have "generate_long_call self ch f p = generate_long_call self ch (with_defaults f) p"
    by (simp add: generate_long_call_def dict_get_with_defaults default_value_simps
        classify_with_defaults)
  ultimately show ?thesis
    by blast
qed

theorem absent_feature_reads_default_witness:
  "with_defaults empty_snapshot ''iv_rank'' = Some 50
   \<and> select_strategy_from_features (with_defaults empty_snapshot) = ''IRON_CONDOR''"
proof -
  have "with_defaults empty_snapshot ''iv_rank'' = Some 50"
    by (simp add: with_defaults_def default_value_def empty_snapshot_def)
  with absent_feature_reads_default [of empty_snapshot default_generator chain_21 105]
    select_empty_snapshot
  show ?thesis
    by simp
qed

text \<open>The rule engine as one chain of conditions on the five values it reads, rules 1 to
  10 in the order of the source, followed by the fallback.\<close>

lemma select_strategy_nested:
  fixes features :: features
  defines "iv_rank \<equiv> dict_get features ''iv_rank'' 50"
    and "adx \<equiv> dict_get features ''adx_14'' 20"
    and "trend_regime \<equiv> dict_get features ''trend_regime'' 2"
    and "rsi \<equiv> dict_get features ''rsi_14'' 50"
    and "price_vs_sma \<equiv> dict_get features ''price_vs_sma_20'' 0"
  shows "select_strategy_from_features features =
      (if 45 < iv_rank \<and> iv_rank < 60 \<and> trend_regime = 2
          \<and> 0.005 < \<bar>price_vs_sma\<bar> \<and> \<bar>price_vs_sma\<bar> < 0.012 \<and> adx < 15
       then ''DIAGONAL_SPREAD''
       else if 52 < iv_rank \<and> iv_rank < 75 \<and> adx < 25 \<and> 45 < rsi \<and> rsi < 55
       then ''IRON_CONDOR''
       else if iv_rank > 68 \<and> adx < 20
       then ''IRON_BUTTERFLY''
       else if iv_rank < 46 \<and> adx > 21 \<and> trend_regime \<ge> 3 \<and> rsi > 54
       then ''LONG_CALL''
       else if iv_rank < 48
          \<and> (adx > 20 \<and> (trend_regime \<le> 1 \<or> rsi < 42 \<or> price_vs_sma < - 0.025)
             \<or> adx \<ge> 15 \<and> (rsi < 38 \<or> price_vs_sma < - 0.035)
             \<or> rsi < 33)
       then ''LONG_PUT''
       else if 56 \<le> iv_rank \<and> iv_rank \<le> 63 \<and> trend_regime \<ge> 3 \<and> adx > 26 \<and> rsi > 62
       then ''BULL_CALL_SPREAD''
       else if 54 \<le> iv_rank \<and> iv_rank \<le> 65 \<and> trend_regime \<le> 1 \<and> adx > 22 \<and> rsi < 45
       then ''BEAR_PUT_SPREAD''
       else if iv_rank < 35 \<and> 45 < rsi \<and> rsi < 58 \<and> adx < 17
       then ''LONG_STRADDLE''
       else if iv_rank < 36 \<and> 44 < rsi \<and> rsi < 59 \<and> adx < 25
       then ''LONG_STRANGLE''
       else if iv_rank < 42 \<and> adx < 20 \<and> 42 < rsi \<and> rsi < 58 \<and> \<bar>price_vs_sma\<bar> < 0.022
       then ''CALENDAR_SPREAD''
       else if iv_rank > 55 then ''IRON_CONDOR''
       else if iv_rank < 35 then (if rsi \<ge> 50 then ''LONG_CALL'' else ''LONG_PUT'')
       else if rsi > 58 \<and> adx > 18 then ''BULL_CALL_SPREAD''
       else if rsi < 42 \<and> adx > 18 then ''BEAR_PUT_SPREAD''
       else ''IRON_CONDOR'')"
proof -
  have sel: "select_strategy_from_features features =
      run_blocks (rule_blocks iv_rank adx trend_regime rsi price_vs_sma)
        (final_fallback iv_rank adx trend_regime rsi price_vs_sma)"
    by (simp add: select_strategy_from_features_def iv_rank_def adx_def
        trend_regime_def rsi_def price_vs_sma_def Let_def)
  have r1: "rule_1 iv_rank adx trend_regime rsi price_vs_sma =
      (if 45 < iv_rank \<and> iv_rank < 60 \<and> trend_regime = 2
          \<and> 0.005 < \<bar>price_vs_sma\<bar> \<and> \<bar>price_vs_sma\<bar> < 0.012 \<and> adx < 15
       then Some ''DIAGONAL_SPREAD'' else None)"
    by (simp add: rule_1_def)
  have r2: "rule_2 iv_rank adx trend_regime rsi price_vs_sma =
      (if 52 < iv_rank \<and> iv_rank < 75 \<and> adx < 25 \<and> 45 < rsi \<and> rsi < 55
       then Some ''IRON_CONDOR'' else None)"
    by (simp add: rule_2_def)
  have r3: "rule_3 iv_rank adx trend_regime rsi price_vs_sma =
      (if iv_rank > 68 \<and> adx < 20 then Some ''IRON_BUTTERFLY'' else None)"
    by (simp add: rule_3_def)
  have r4: "rule_4 iv_rank adx trend_regime rsi price_vs_sma =
      (if iv_rank < 46 \<and> adx > 21 \<and> trend_regime \<ge> 3 \<and> rsi > 54
       then Some ''LONG_CALL'' else None)"
    by (simp add: rule_4_def)
  have r5: "rule_5 iv_rank adx trend_regime rsi price_vs_sma =
      (if iv_rank < 48
          \<and> (adx > 20 \<and> (trend_regime \<le> 1 \<or> rsi < 42 \<or> price_vs_sma < - 0.025)
             \<or> adx \<ge> 15 \<and> (rsi < 38 \<or> price_vs_sma < - 0.035)
             \<or> rsi < 33)
       then Some ''LONG_PUT'' else None)"
    unfolding rule_5_def by (simp only: split: if_splits) blast
  have r6: "rule_6 iv_rank adx trend_regime rsi price_vs_sma =
      (if 56 \<le> iv_rank \<and> iv_rank \<le> 63 \<and> trend_regime \<ge> 3 \<and> adx > 26 \<and> rsi > 62
       then Some ''BULL_CALL_SPREAD'' else None)"
    by (simp add: rule_6_def)
  have r7: "rule_7 iv_rank adx trend_regime rsi price_vs_sma =
      (if 54 \<le> iv_rank \<and> iv_rank \<le> 65 \<and> trend_regime \<le> 1 \<and> adx > 22 \<and> rsi < 45
       then Some ''BEAR_PUT_SPREAD'' else None)"
    by (simp add: rule_7_def)
  have r8: "rule_8 iv_rank adx trend_regime rsi price_vs_sma =
      (if iv_rank < 35 \<and> 45 < rsi \<and> rsi < 58 \<and> adx < 17
       then Some ''LONG_STRADDLE'' else None)"
    by (simp add: rule_8_def)
  have r9: "rule_9 iv_rank adx trend_regime rsi price_vs_sma =
      (if iv_rank < 36 \<and> 44 < rsi \<and> rsi < 59 \<and> adx < 25
       then Some ''LONG_STRANGLE'' else None)"
    by (simp add: rule_9_def)
  have r10: "rule_10 iv_rank adx trend_regime rsi price_vs_sma =
      (if iv_rank < 42 \<and> adx < 20 \<and> 42 < rsi \<and> rsi < 58 \<and> \<bar>price_vs_sma\<bar> < 0.022
       then Some ''CALENDAR_SPREAD'' else None)"
    by (simp add: rule_10_def)
  have fb: "final_fallback iv_rank adx trend_regime rsi price_vs_sma =
      (if iv_rank > 55 then ''IRON_CONDOR''
       else if iv_rank < 35 then (if rsi \<ge> 50 then ''LONG_CALL'' else ''LONG_PUT'')
       else if rsi > 58 \<and> adx > 18 then ''BULL_CALL_SPREAD''
       else if rsi < 42 \<and> adx > 18 then ''BEAR_PUT_SPREAD''
       else ''IRON_CONDOR'')"
    by (simp add: final_fallback_def)
  have step: "run_blocks ((if c then Some l else None) # rest) d =
      (if c then l else run_blocks rest d)" for c l rest d
    by simp
  show ?thesis
    unfolding sel rule_blocks_def r1 r2 r3 r4 r5 r6 r7 r8 r9 r10 fb step run_blocks.simps
    by (rule refl)
qed

text \<open>
  Claim C4. The rule engine returns one of the ten labels on every snapshot. Its rules
  are tried in the fixed order 1 to 10, the first one whose condition holds decides the
  label, and the conditions and labels are those of the source: Diagonal Spread, Iron
  Condor, Iron Butterfly, Long Call, Long Put (three paths), Bull Call Spread, Bear Put
  Spread, Long Straddle, Long Strangle, Calendar Spread. When none of them matches, the
  fallback decides: \<open>IRON_CONDOR\<close> for \<open>iv_rank > 55\<close>; for \<open>iv_rank < 35\<close>,
  \<open>LONG_CALL\<close> if \<open>rsi \<ge> 50\<close> and \<open>LONG_PUT\<close> otherwise; in between,
  \<open>BULL_CALL_SPREAD\<close> for \<open>rsi > 58\<close> and \<open>adx > 18\<close>, \<open>BEAR_PUT_SPREAD\<close> for
  \<open>rsi < 42\<close> and \<open>adx > 18\<close>, and \<open>IRON_CONDOR\<close> otherwise.
\<close>

theorem rule_engine_total_first_match:
  fixes features :: features
  defines "iv_rank \<equiv> dict_get features ''iv_rank'' 50"
    and "adx \<equiv> dict_get features ''adx_14'' 20"
    and "trend_regime \<equiv> dict_get features ''trend_regime'' 2"
    and "rsi \<equiv> dict_get features ''rsi_14'' 50"
    and "price_vs_sma \<equiv> dict_get features ''price_vs_sma_20'' 0"
  defines "blocks \<equiv> rule_blocks iv_rank adx trend_regime rsi price_vs_sma"
  shows "select_strategy_from_features features \<in> set strategy_labels
    \<and> select_strategy_from_features features =
      (if 45 < iv_rank \<and> iv_rank < 60 \<and> trend_regime = 2
          \<and> 0.005 < \<bar>price_vs_sma\<bar> \<and> \<bar>price_vs_sma\<bar> < 0.012 \<and> adx < 15
       then ''DIAGONAL_SPREAD''
       else if 52 < iv_rank \<and> iv_rank < 75 \<and> adx < 25 \<and> 45 < rsi \<and> rsi < 55
       then ''IRON_CONDOR''
       else if iv_rank > 68 \<and> adx < 20
       then ''IRON_BUTTERFLY''
       else if iv_rank < 46 \<and> adx > 21 \<and> trend_regime \<ge> 3 \<and> rsi > 54
       then ''LONG_CALL''
       else if iv_rank < 48
          \<and> (adx > 20 \<and> (trend_regime \<le> 1 \<or> rsi < 42 \<or> price_vs_sma < - 0.025)
             \<or> adx \<ge> 15 \<and> (rsi < 38 \<or> price_vs_sma < - 0.035)
             \<or> rsi < 33)
       then ''LONG_PUT''
       else if 56 \<le> iv_rank \<and> iv_rank \<le> 63 \<and> trend_regime \<ge> 3 \<and> adx > 26 \<and> rsi > 62
       then ''BULL_CALL_SPREAD''
       else if 54 \<le> iv_rank \<and> iv_rank \<le> 65 \<and> trend_regime \<le> 1 \<and> adx > 22 \<and> rsi < 45
       then ''BEAR_PUT_SPREAD''
       else if iv_rank < 35 \<and> 45 < rsi \<and> rsi < 58 \<and> adx < 17
       then ''LONG_STRADDLE''
       else if iv_rank < 36 \<and> 44 < rsi \<and> rsi < 59 \<and> adx < 25
       then ''LONG_STRANGLE''
       else if iv_rank < 42 \<and> adx < 20 \<and> 42 < rsi \<and> rsi < 58 \<and> \<bar>price_vs_sma\<bar> < 0.022
       then ''CALENDAR_SPREAD''
       else if iv_rank > 55 then ''IRON_CONDOR''
       else if iv_rank < 35 then (if rsi \<ge> 50 then ''LONG_CALL'' else ''LONG_PUT'')
       else if rsi > 58 \<and> adx > 18 then ''BULL_CALL_SPREAD''
       else if rsi < 42 \<and> adx > 18 then ''BEAR_PUT_SPREAD''
       else ''IRON_CONDOR'')
    \<and> (\<forall>k l. k < 10 \<and> blocks ! k = Some l \<and> (\<forall>j<k. blocks ! j = None)
          \<longrightarrow> select_strategy_from_features features = l)
    \<and> ((\<forall>k<10. blocks ! k = None) \<longrightarrow>
          select_strategy_from_features features =
            (if iv_rank > 55 then ''IRON_CONDOR''
             else if iv_rank < 35 then (if rsi \<ge> 50 then ''LONG_CALL'' else ''LONG_PUT'')
             else if rsi > 58 \<and> adx > 18 then ''BULL_CALL_SPREAD''
             else if rsi < 42 \<and> adx > 18 then ''BEAR_PUT_SPREAD''
             else ''IRON_CONDOR''))"
proof -
  have sel: "select_strategy_from_features features =
      run_blocks blocks (final_fallback iv_rank adx trend_regime rsi price_vs_sma)"
    by (simp add: select_strategy_from_features_def blocks_def iv_rank_def adx_def
        trend_regime_def rsi_def price_vs_sma_def Let_def)
  have len: "length blocks = 10"
    by (simp add: blocks_def rule_blocks_def)
  have total: "select_strategy_from_features features \<in> set strategy_labels"
    unfolding sel blocks_def
    by (rule run_blocks_in) (auto intro: rule_blocks_labels final_fallback_label)
  note nested = select_strategy_nested [of features, folded iv_rank_def adx_def
      trend_regime_def rsi_def price_vs_sma_def]
  have first: "\<forall>k l. k < 10 \<and> blocks ! k = Some l \<and> (\<forall>j<k. blocks ! j = None)
          \<longrightarrow> select_strategy_from_features features = l"
    unfolding sel using run_blocks_first_match [of _ blocks] len by auto
  have none: "(\<forall>k<10. blocks ! k = None) \<longrightarrow>
      select_strategy_from_features features =
        final_fallback iv_rank adx trend_regime rsi price_vs_sma"
  proof
    assume "\<forall>k<10. blocks ! k = None"
    with len have "\<forall>b\<in>set blocks. b = None"
      by (auto simp: in_set_conv_nth)
    then show "select_strategy_from_features features =
        final_fallback iv_rank adx trend_regime rsi price_vs_sma"
      unfolding sel by (rule run_blocks_no_match)
  qed
  have fb: "final_fallback iv_rank adx trend_regime rsi price_vs_sma =
            (if iv_rank > 55 then ''IRON_CONDOR''
             else if iv_rank < 35 then (if rsi \<ge> 50 then ''LONG_CALL'' else ''LONG_PUT'')
             else if rsi > 58 \<and> adx > 18 then ''BULL_CALL_SPREAD''
             else if rsi < 42 \<and> adx > 18 then ''BEAR_PUT_SPREAD''
             else ''IRON_CONDOR'')"
    by (simp add: final_fallback_def)
  from none fb have none': "(\<forall>k<10. blocks ! k = None) \<longrightarrow>
          select_strategy_from_features features =
            (if iv_rank > 55 then ''IRON_CONDOR''
             else if iv_rank < 35 then (if rsi \<ge> 50 then ''LONG_CALL'' else ''LONG_PUT'')
             else if rsi > 58 \<and> adx > 18 then ''BULL_CALL_SPREAD''
             else if rsi < 42 \<and> adx > 18 then ''BEAR_PUT_SPREAD''
             else ''IRON_CONDOR'')"
    by (simp only:)
  from total nested first none' show ?thesis
    by (intro conjI)
qed

theorem rule_engine_total_first_match_witness:
  "rule_blocks 50 30 2 60 0 = replicate 10 None
   \<and> select_strategy_from_features snapshot_medium_iv = ''BULL_CALL_SPREAD''
   \<and> rule_blocks 70 10 2 50 0 ! 0 = None
   \<and> rule_blocks 70 10 2 50 0 ! 1 = Some ''IRON_CONDOR''
   \<and> select_strategy_from_features snapshot_high_iv = ''IRON_CONDOR''
   \<and> select_strategy_from_features snapshot_high_iv \<in> set strategy_labels
   \<and> select_strategy_from_features snapshot_low_iv_quiet = ''LONG_STRADDLE''"
proof -
  have g: "dict_get snapshot_medium_iv ''iv_rank'' 50 = 50"
      "dict_get snapshot_medium_iv ''adx_14'' 20 = 30"
      "dict_get snapshot_medium_iv ''trend_regime'' 2 = 2"
      "dict_get snapshot_medium_iv ''rsi_14'' 50 = 60"
      "dict_get snapshot_medium_iv ''price_vs_sma_20'' 0 = 0"
    by (simp_all add: dict_get_def snapshot_medium_iv_def)
  have b: "rule_blocks 50 30 2 60 0 = replicate 10 None"
    by (simp add: rule_blocks_def rule_defs numeral_eq_Suc)
  have n: "\<forall>k<10. rule_blocks 50 30 2 60 0 ! k = None"
    unfolding b by simp
  have fallback: "select_strategy_from_features snapshot_medium_iv = ''BULL_CALL_SPREAD''"
    using rule_engine_total_first_match [of snapshot_medium_iv] n unfolding g by simp
  have h: "dict_get snapshot_high_iv ''iv_rank'' 50 = 70"
      "dict_get snapshot_high_iv ''adx_14'' 20 = 10"
      "dict_get snapshot_high_iv ''trend_regime'' 2 = 2"
      "dict_get snapshot_high_iv ''rsi_14'' 50 = 50"
      "dict_get snapshot_high_iv ''price_vs_sma_20'' 0 = 0"
    by (simp_all add: dict_get_def snapshot_high_iv_def)
  have m1: "rule_blocks 70 10 2 50 0 ! 1 = Some ''IRON_CONDOR''"
    by (simp add: rule_blocks_def rule_defs)
  have m0: "rule_blocks 70 10 2 50 0 ! 0 = None"
    by (simp add: rule_blocks_def rule_defs)
  then have m0': "\<forall>j<1. rule_blocks 70 10 2 50 0 ! j = None"
    by simp
  have "(1::nat) < 10" by simp
  with m1 m0' have first: "select_strategy_from_features snapshot_high_iv = ''IRON_CONDOR''"
    using rule_engine_total_first_match [of snapshot_high_iv]
    unfolding h by blast
  have label: "select_strategy_from_features snapshot_high_iv \<in> set strategy_labels"
    using rule_engine_total_first_match [of snapshot_high_iv] by blast
  have q: "dict_get snapshot_low_iv_quiet ''iv_rank'' 50 = 30"
      "dict_get snapshot_low_iv_quiet ''adx_14'' 20 = 10"
      "dict_get snapshot_low_iv_quiet ''trend_regime'' 2 = 2"
      "dict_get snapshot_low_iv_quiet ''rsi_14'' 50 = 50"
      "dict_get snapshot_low_iv_quiet ''price_vs_sma_20'' 0 = 0"
    by (simp_all add: dict_get_def snapshot_low_iv_quiet_def)
  have straddle: "select_strategy_from_features snapshot_low_iv_quiet = ''LONG_STRADDLE''"
    using rule_engine_total_first_match [of snapshot_low_iv_quiet, THEN conjunct2, THEN conjunct1]
    unfolding q by simp
  from b fallback m0 m1 first label straddle show ?thesis
    by blast
qed

text \<open>
  Claim C5. A snapshot with \<open>iv_rank = 60\<close>, \<open>adx_14 = 15\<close> and \<open>rsi_14 = 50\<close> is
  labelled \<open>IRON_CONDOR\<close>, and one with \<open>iv_rank = 30\<close>, \<open>adx_14 = 25\<close>,
  \<open>trend_regime = 4\<close> and \<open>rsi_14 = 60\<close> is labelled \<open>LONG_CALL\<close>, whatever the other
  keys hold or whether they are present.
\<close>

theorem scenario_labels:
  "(features ''iv_rank'' = Some 60 \<and> features ''adx_14'' = Some 15
      \<and> features ''rsi_14'' = Some 50
      \<longrightarrow> select_strategy_from_features features = ''IRON_CONDOR'')
   \<and> (features' ''iv_rank'' = Some 30 \<and> features' ''adx_14'' = Some 25
       \<and> features' ''trend_regime'' = Some 4 \<and> features' ''rsi_14'' = Some 60
      \<longrightarrow> select_strategy_from_features features' = ''LONG_CALL'')"
  by (simp add: select_strategy_from_features_def dict_get_def rule_blocks_def rule_defs)

theorem scenario_labels_witness:
  "snapshot_scenario_1 ''iv_rank'' = Some 60 \<and> snapshot_scenario_1 ''adx_14'' = Some 15
   \<and> snapshot_scenario_1 ''rsi_14'' = Some 50
   \<and> select_strategy_from_features snapshot_scenario_1 = ''IRON_CONDOR''
   \<and> snapshot_scenario_2 ''iv_rank'' = Some 30 \<and> snapshot_scenario_2 ''adx_14'' = Some 25
   \<and> snapshot_scenario_2 ''trend_regime'' = Some 4 \<and> snapshot_scenario_2 ''rsi_14'' = Some 60
   \<and> select_strategy_from_features snapshot_scenario_2 = ''LONG_CALL''"
proof -
  have a: "snapshot_scenario_1 ''iv_rank'' = Some 60 \<and> snapshot_scenario_1 ''adx_14'' = Some 15
      \<and> snapshot_scenario_1 ''rsi_14'' = Some 50"
    by (simp add: snapshot_scenario_1_def)
  have b: "snapshot_scenario_2 ''iv_rank'' = Some 30 \<and> snapshot_scenario_2 ''adx_14'' = Some 25
      \<and> snapshot_scenario_2 ''trend_regime'' = Some 4 \<and> snapshot_scenario_2 ''rsi_14'' = Some 60"
    by (simp add: snapshot_scenario_2_def)
  from scenario_labels [of snapshot_scenario_1 snapshot_scenario_2] a b show ?thesis
    by blast
qed

section \<open>Properties of the strike selection\<close>

text \<open>The scan returns an element of the sequence that splits it: everything before it
  has a strictly larger key, everything after it a key at least as large.\<close>

lemma min_from_split:
  "\<exists>pre post. best # xs = pre @ min_from k best xs # post
     \<and> (\<forall>x\<in>set pre. k (min_from k best xs) < k x)
     \<and> (\<forall>x\<in>set post. k (min_from k best xs) \<le> k x)"
proof (induction xs arbitrary: best)
  case Nil
  have "[best] = [] @ min_from k best [] # []" by simp
  then show ?case by fastforce
next
  case (Cons x xs)
  show ?case
  proof (cases "k x < k best")
    case True
    from Cons.IH [of x] obtain pre post where
      d: "x # xs = pre @ min_from k x xs # post"
      and p: "\<forall>y\<in>set pre. k (min_from k x xs) < k y"
      and q: "\<forall>y\<in>set post. k (min_from k x xs) \<le> k y"
      by blast
    have "k (min_from k x xs) \<le> k x"
    proof (cases pre)
      case Nil
      with d have "x # xs = min_from k x xs # post" by (simp only: append_Nil)
      then have "min_from k x xs = x" by (metis list.inject)
      then show ?thesis by (simp only: order_refl)
    next
      case (Cons a pre')
      with d have "x # xs = a # (pre' @ min_from k x xs # post)"
        by (simp only: append_Cons)
      then have "a = x" by (metis list.inject)
      with Cons p show ?thesis by auto
    qed
    with True have lt: "k (min_from k x xs) < k best" by simp
    from d have "best # x # xs = (best # pre) @ min_from k x xs # post"
      by simp
    with p q lt True show ?thesis
      by (metis min_from.simps(2) set_ConsD)
  next
    case False
    from Cons.IH [of best] obtain pre post where
      d: "best # xs = pre @ min_from k best xs # post"
      and p: "\<forall>y\<in>set pre. k (min_from k best xs) < k y"
      and q: "\<forall>y\<in>set post. k (min_from k best xs) \<le> k y"
      by blast
    show ?thesis
    proof (cases pre)
      case Nil
      with d have "best # xs = min_from k best xs # post" by (simp only: append_Nil)
      then have "min_from k best xs = best" "post = xs" by (metis list.inject)+
      with q False have "best # x # xs = [] @ min_from k best (x # xs) # (x # xs)"
        "\<forall>y\<in>set (x # xs). k (min_from k best (x # xs)) \<le> k y"
        by auto
      then show ?thesis by (metis empty_iff list.set(1))
    next
      case (Cons a pre')
      with d have "best # xs = a # (pre' @ min_from k best xs # post)"
        by (simp only: append_Cons)
      then have a: "a = best" and xs: "xs = pre' @ min_from k best xs # post"
        by (metis list.inject)+
      from p Cons a have "k (min_from k best xs) < k best" by simp
      with False have "k (min_from k best xs) < k x" by simp
      with p Cons a have "\<forall>y\<in>set (best # x # pre'). k (min_from k best xs) < k y"
        by auto
      moreover from xs have "best # x # xs = (best # x # pre') @ min_from k best xs # post"
        by simp
      ultimately show ?thesis using q False
        by (metis min_from.simps(2))
    qed
  qed
qed

lemma min_from_in: "min_from k best xs \<in> set (best # xs)"
  using min_from_split [of best xs k] by (metis in_set_conv_decomp)

lemma min_from_le: "x \<in> set (best # xs) \<Longrightarrow> k (min_from k best xs) \<le> k x"
proof -
  assume x: "x \<in> set (best # xs)"
  from min_from_split [of best xs k] obtain pre post where
    d: "best # xs = pre @ min_from k best xs # post"
    and p: "\<forall>y\<in>set pre. k (min_from k best xs) < k y"
    and q: "\<forall>y\<in>set post. k (min_from k best xs) \<le> k y"
    by blast
  from x d have "x \<in> set pre \<or> x = min_from k best xs \<or> x \<in> set post"
    by (metis Un_iff set_ConsD set_append)
  with p q show ?thesis by auto
qed

lemma filter_split:
  "filter P ys = pre @ c # post \<Longrightarrow>
   \<exists>us vs. ys = us @ c # vs \<and> filter P us = pre \<and> filter P vs = post \<and> P c"
proof (induction ys arbitrary: pre)
  case Nil
  then show ?case by simp
next
  case (Cons y ys)
  show ?case
  proof (cases "P y")
    case False
    with Cons.prems have "filter P ys = pre @ c # post" by simp
    from Cons.IH [OF this] obtain us vs where
      "ys = us @ c # vs" "filter P us = pre" "filter P vs = post" "P c" by blast
    with False have "y # ys = (y # us) @ c # vs \<and> filter P (y # us) = pre
        \<and> filter P vs = post \<and> P c" by simp
    then show ?thesis by blast
  next
    case True
    with Cons.prems have e: "y # filter P ys = pre @ c # post" by simp
    show ?thesis
    proof (cases pre)
      case Nil
      with e have "y = c" "filter P ys = post" by simp_all
      with True have "y # ys = [] @ c # ys \<and> filter P [] = [] \<and> filter P ys = post \<and> P c"
        by simp
      with Nil show ?thesis by blast
    next
      case (Cons a pre')
      with e have a: "a = y" and "filter P ys = pre' @ c # post" by simp_all
      from Cons.IH [OF this(2)] obtain us vs where
        "ys = us @ c # vs" "filter P us = pre'" "filter P vs = post" "P c" by blast
      with True a Cons have "y # ys = (y # us) @ c # vs \<and> filter P (y # us) = pre
          \<and> filter P vs = post \<and> P c" by simp
      then show ?thesis by blast
    qed
  qed
qed

lemma filtered_rows_candidates:
  "filtered_rows ch ty d = filter (is_candidate ch ty d) ch"
proof (cases "\<exists>c'\<in>set ch. otype c' = ty \<and> dte c' = d")
  case True
  then have "rows_of_type_dte ch ty d \<noteq> []"
    by (auto simp: rows_of_type_dte_def filter_empty_conv)
  moreover from True have "is_candidate ch ty d = (\<lambda>c. otype c = ty \<and> dte c = d)"
    by (auto simp: is_candidate_def fun_eq_iff)
  ultimately show ?thesis
    by (simp add: filtered_rows_def rows_of_type_dte_def)
next
  case False
  then have "rows_of_type_dte ch ty d = []"
    by (auto simp: rows_of_type_dte_def filter_empty_conv)
  moreover from False have "is_candidate ch ty d = (\<lambda>c. otype c = ty)"
    by (auto simp: is_candidate_def fun_eq_iff)
  ultimately show ?thesis
    by (simp add: filtered_rows_def rows_of_type_def)
qed

lemma filtered_rows_empty_iff:
  "filtered_rows ch ty d = [] \<longleftrightarrow> (\<forall>c\<in>set ch. otype c \<noteq> ty)"
  by (auto simp: filtered_rows_def rows_of_type_dte_def rows_of_type_def filter_empty_conv Let_def)

lemma first_nearest_in_chain:
  assumes "filtered_rows ch ty d = c0 # rest"
  shows "\<exists>pre post. ch = pre @ min_from k c0 rest # post
      \<and> is_candidate ch ty d (min_from k c0 rest)
      \<and> (\<forall>x\<in>set pre. is_candidate ch ty d x \<longrightarrow> k (min_from k c0 rest) < k x)
      \<and> (\<forall>x\<in>set post. is_candidate ch ty d x \<longrightarrow> k (min_from k c0 rest) \<le> k x)"
proof -
  let ?m = "min_from k c0 rest"
  let ?P = "is_candidate ch ty d"
  from min_from_split [of c0 rest k] obtain pre post where
    d: "c0 # rest = pre @ ?m # post"
    and p: "\<forall>x\<in>set pre. k ?m < k x"
    and q: "\<forall>x\<in>set post. k ?m \<le> k x"
    by blast
  from assms d have "filter ?P ch = pre @ ?m # post"
    by (simp add: filtered_rows_candidates)
  from filter_split [OF this] obtain us vs where
    ch: "ch = us @ ?m # vs" and us: "filter ?P us = pre" and vs: "filter ?P vs = post"
    and m: "?P ?m" by blast
  from us p have "\<forall>x\<in>set us. ?P x \<longrightarrow> k ?m < k x" by auto
  moreover from vs q have "\<forall>x\<in>set vs. ?P x \<longrightarrow> k ?m \<le> k x" by auto
  ultimately show ?thesis using ch m by blast
qed

text \<open>
  Claim C7. Strike selection by delta looks at the contracts of the requested type and
  expiration, and at all contracts of the requested type when there are none. It raises
  the no-options error exactly when the chain has no contract of the requested type.
  Otherwise it returns the strike of the first contract of the chain, in the chain's
  order, among those looked at that minimise \<open>| |delta| - |target delta| |\<close>. The chain
  is an argument that is only read.
\<close>

theorem find_strike_by_delta_first_nearest:
  "((\<exists>e. find_strike_by_delta ch target_delta ty d = Inl e) \<longleftrightarrow> (\<forall>c\<in>set ch. otype c \<noteq> ty))
   \<and> ((\<forall>c\<in>set ch. otype c \<noteq> ty) \<longrightarrow>
        find_strike_by_delta ch target_delta ty d = Inl (NoOptionsAvailable ty))
   \<and> ((\<exists>c\<in>set ch. otype c = ty) \<longrightarrow>
        (\<exists>pre c post. ch = pre @ c # post
           \<and> is_candidate ch ty d c
           \<and> find_strike_by_delta ch target_delta ty d = Inr (strike c)
           \<and> (\<forall>x\<in>set pre. is_candidate ch ty d x \<longrightarrow>
                 \<bar>\<bar>delta c\<bar> - \<bar>target_delta\<bar>\<bar> < \<bar>\<bar>delta x\<bar> - \<bar>target_delta\<bar>\<bar>)
           \<and> (\<forall>x\<in>set post. is_candidate ch ty d x \<longrightarrow>
                 \<bar>\<bar>delta c\<bar> - \<bar>target_delta\<bar>\<bar> \<le> \<bar>\<bar>delta x\<bar> - \<bar>target_delta\<bar>\<bar>)))"
proof (cases "filtered_rows ch ty d")
  case Nil
  then have none: "\<forall>c\<in>set ch. otype c \<noteq> ty"
    by (simp add: filtered_rows_empty_iff)
  from Nil have "find_strike_by_delta ch target_delta ty d = Inl (NoOptionsAvailable ty)"
    by (simp add: find_strike_by_delta_def)
  with none show ?thesis by auto
next
  case (Cons c0 rest)
  then have some: "\<not> (\<forall>c\<in>set ch. otype c \<noteq> ty)"
    using filtered_rows_empty_iff [of ch ty d] by simp
  from Cons have r: "find_strike_by_delta ch target_delta ty d =
      Inr (strike (min_from (delta_diff target_delta) c0 rest))"
    by (simp add: find_strike_by_delta_def)
  from first_nearest_in_chain [OF Cons, of "delta_diff target_delta"] r
  have "\<exists>pre c post. ch = pre @ c # post
           \<and> is_candidate ch ty d c
           \<and> find_strike_by_delta ch target_delta ty d = Inr (strike c)
           \<and> (\<forall>x\<in>set pre. is_candidate ch ty d x \<longrightarrow>
                 \<bar>\<bar>delta c\<bar> - \<bar>target_delta\<bar>\<bar> < \<bar>\<bar>delta x\<bar> - \<bar>target_delta\<bar>\<bar>)
           \<and> (\<forall>x\<in>set post. is_candidate ch ty d x \<longrightarrow>
                 \<bar>\<bar>delta c\<bar> - \<bar>target_delta\<bar>\<bar> \<le> \<bar>\<bar>delta x\<bar> - \<bar>target_delta\<bar>\<bar>)"
    unfolding delta_diff_def by metis
  with some r show ?thesis by auto
qed

theorem find_strike_by_delta_first_nearest_witness:
  "rows_of_type chain_tie ''call'' \<noteq> []
   \<and> (\<exists>pre c post. chain_tie = pre @ c # post
         \<and> is_candidate chain_tie ''call'' 21 c
         \<and> find_strike_by_delta chain_tie 0.5 ''call'' 21 = Inr (strike c))
   \<and> find_strike_by_delta chain_tie 0.5 ''call'' 21 = Inr 95
   \<and> find_strike_by_delta chain_tie 0.5 ''call'' 14 = Inr 100
   \<and> rows_of_type chain_tie ''future'' = []
   \<and> find_strike_by_delta chain_tie 0.5 ''future'' 21 = Inl (NoOptionsAvailable ''future'')"
proof -
  have a': "rows_of_type chain_tie ''call'' \<noteq> []"
    by (simp add: chain_tie_def rows_of_type_def)
  have b': "rows_of_type chain_tie ''future'' = []"
    by (simp add: chain_tie_def rows_of_type_def)
  have a: "\<exists>c\<in>set chain_tie. otype c = ''call''"
    by (simp add: chain_tie_def)
  have b: "\<forall>c\<in>set chain_tie. otype c \<noteq> ''future''"
    by (simp add: chain_tie_def)
  have c: "find_strike_by_delta chain_tie 0.5 ''call'' 21 = Inr 95"
    by (simp add: find_strike_by_delta_def filtered_rows_def rows_of_type_dte_def
        rows_of_type_def chain_tie_def delta_diff_def)
  have d: "find_strike_by_delta chain_tie 0.5 ''call'' 14 = Inr 100"
    by (simp add: find_strike_by_delta_def filtered_rows_def rows_of_type_dte_def
        rows_of_type_def chain_tie_def delta_diff_def)
  from find_strike_by_delta_first_nearest [of chain_tie "0.5" "''call''" 21] a
  have "\<exists>pre c post. chain_tie = pre @ c # post
         \<and> is_candidate chain_tie ''call'' 21 c
         \<and> find_strike_by_delta chain_tie 0.5 ''call'' 21 = Inr (strike c)"
    by blast
  moreover
  from find_strike_by_delta_first_nearest [of chain_tie "0.5" "''future''" 21] b
  have "find_strike_by_delta chain_tie 0.5 ''future'' 21 = Inl (NoOptionsAvailable ''future'')"
    by blast
  ultimately show ?thesis
    using a' b' c d by blast
qed

text \<open>
  Claim C8. On a chain with at least one contract of the requested type and expiration,
  selection by delta returns a strike, and selection by price for that strike, over the
  same chain, type and expiration, returns the same strike.
\<close>

theorem delta_then_price_round_trip:
  assumes "\<exists>c\<in>set ch. otype c = ty \<and> dte c = d"
  shows "(\<exists>S. find_strike_by_delta ch D ty d = Inr S)
       \<and> (\<forall>S. find_strike_by_delta ch D ty d = Inr S \<longrightarrow> find_strike_by_price ch S ty d = Inr S)"
proof -
  from assms have "filtered_rows ch ty d \<noteq> []"
    by (auto simp: filtered_rows_empty_iff)
  then obtain c0 rest where F: "filtered_rows ch ty d = c0 # rest"
    by (cases "filtered_rows ch ty d") auto
  let ?m = "min_from (delta_diff D) c0 rest"
  let ?r = "min_from (price_diff (strike ?m)) c0 rest"
  from F have delta: "find_strike_by_delta ch D ty d = Inr (strike ?m)"
    by (simp add: find_strike_by_delta_def)
  have "?m \<in> set (c0 # rest)" by (rule min_from_in)
  then have "price_diff (strike ?m) ?r \<le> price_diff (strike ?m) ?m"
    by (rule min_from_le)
  then have "strike ?r = strike ?m"
    by (simp add: price_diff_def)
  with F have "find_strike_by_price ch (strike ?m) ty d = Inr (strike ?m)"
    by (simp add: find_strike_by_price_def)
  with delta show ?thesis by simp
qed

theorem delta_then_price_round_trip_witness:
  "rows_of_type_dte chain_tie ''call'' 21 \<noteq> []
   \<and> find_strike_by_delta chain_tie 0.5 ''call'' 21 = Inr 95
   \<and> find_strike_by_price chain_tie 95 ''call'' 21 = Inr 95"
proof -
  have a': "rows_of_type_dte chain_tie ''call'' 21 \<noteq> []"
    by (simp add: chain_tie_def rows_of_type_dte_def)
  have a: "\<exists>c\<in>set chain_tie. otype c = ''call'' \<and> dte c = 21"
    by (simp add: chain_tie_def)
  have c: "find_strike_by_delta chain_tie 0.5 ''call'' 21 = Inr 95"
    by (simp add: find_strike_by_delta_def filtered_rows_def rows_of_type_dte_def
        rows_of_type_def chain_tie_def delta_diff_def)
  from delta_then_price_round_trip [OF a, of "0.5"] c
  have "find_strike_by_price chain_tie 95 ''call'' 21 = Inr 95"
    by blast
  with a' c show ?thesis
    by blast
qed

section \<open>Properties of the strategy builders\<close>

lemma bindE_Inr_iff: "bindE m f = Inr y \<longleftrightarrow> (\<exists>x. m = Inr x \<and> f x = Inr y)"
  by (cases m) (simp_all add: bindE_def)

lemma bindE_Inl [simp]: "bindE (Inl e) f = Inl e"
  by (simp add: bindE_def)

lemma bindE_Inr [simp]: "bindE (Inr x) f = f x"
  by (simp add: bindE_def)

text \<open>
  Claim C6. Whenever the bull call spread builder returns a trade, its two strikes were
  selected by delta among the calls of the chosen expiration, the long leg's ask and the
  short leg's bid were read off the chain, and the trade has
  \<open>net_debit = (ask - bid) * 100\<close>,
  \<open>max_profit = (short_strike - long_strike) * 100 - net_debit\<close>, \<open>max_loss = net_debit\<close>
  and \<open>breakeven = long_strike + net_debit / 100\<close>. With strikes 100 and 110 and a net debit
  of 400 the maximum profit is 600 and the breakeven 104.
\<close>

theorem bull_call_spread_payoff:
  assumes "generate_bull_call_spread self ch features price = Inr t"
  shows "\<exists>long_delta short_delta long_ask short_bid.
      find_strike_by_delta ch long_delta ''call'' (bcs_dte t) = Inr (bcs_long_strike t)
    \<and> find_strike_by_delta ch short_delta ''call'' (bcs_dte t) = Inr (bcs_short_strike t)
    \<and> get_option_cost ch (bcs_long_strike t) ''call'' (bcs_dte t) = Inr long_ask
    \<and> get_option_bid ch (bcs_short_strike t) ''call'' (bcs_dte t) = Inr short_bid
    \<and> bcs_net_debit t = (long_ask - short_bid) * 100
    \<and> bcs_max_profit t = (bcs_short_strike t - bcs_long_strike t) * 100 - bcs_net_debit t
    \<and> bcs_max_loss t = bcs_net_debit t
    \<and> bcs_breakeven t = bcs_long_strike t + bcs_net_debit t / 100
    \<and> (bcs_long_strike t = 100 \<and> bcs_short_strike t = 110 \<and> bcs_net_debit t = 400
         \<longrightarrow> bcs_max_profit t = 600 \<and> bcs_breakeven t = 104)"
  using assms
  by (auto simp: generate_bull_call_spread_def bindE_Inr_iff Let_def split: if_splits)

theorem bull_call_spread_payoff_witness:
  "\<exists>t. generate_bull_call_spread default_generator chain_21 empty_snapshot 105 = Inr t
       \<and> bcs_long_strike t = 100 \<and> bcs_short_strike t = 110 \<and> bcs_net_debit t = 400
       \<and> bcs_max_profit t = 600 \<and> bcs_breakeven t = 104"
proof -
  have i: "dict_get empty_snapshot ''iv_rank'' 50 = 50"
    by (simp add: dict_get_def empty_snapshot_def)
  have t: "classify_trend_strength empty_snapshot = ''WEAK''"
    by (simp add: classify_trend_strength_def dict_get_def empty_snapshot_def)
  have d: "select_optimal_dte chain_21 ''BULL_CALL_SPREAD'' 50 ''WEAK'' = Inr 21"
    by (simp add: select_optimal_dte_def available_dtes_def chain_21_def py_min_def)
  have k1: "find_strike_by_delta chain_21 0.60 ''call'' 21 = Inr 100"
    by (simp add: find_strike_by_delta_def filtered_rows_def rows_of_type_dte_def
        rows_of_type_def chain_21_def delta_diff_def)
  have k2: "find_strike_by_delta chain_21 0.25 ''call'' 21 = Inr 110"
    by (simp add: find_strike_by_delta_def filtered_rows_def rows_of_type_dte_def
        rows_of_type_def chain_21_def delta_diff_def)
  have c1: "get_option_cost chain_21 100 ''call'' 21 = Inr 6"
    by (simp add: get_option_cost_def rows_at_def chain_21_def)
  have c2: "get_option_bid chain_21 110 ''call'' 21 = Inr 2"
    by (simp add: get_option_bid_def rows_at_def chain_21_def)
  have n: "calculate_position_size (risk_manager default_generator) 400 = 1"
    by (simp add: calculate_position_size_def default_generator_def RiskManager_init_def
        py_int_def floor_eq_iff)
  define t0 where "t0 =
      \<lparr>bcs_strategy = ''BULL_CALL_SPREAD'', bcs_long_strike = 100, bcs_short_strike = 110,
       bcs_dte = 21, bcs_contracts = 1, bcs_net_debit = 400, bcs_total_debit = 400,
       bcs_max_profit = 600, bcs_total_max_profit = 600, bcs_max_loss = 400,
       bcs_total_max_loss = 400, bcs_breakeven = 104, bcs_spread_width = 10,
       bcs_risk_reward_ratio = 3 / 2, bcs_iv_rank = 50\<rparr>"
  have e: "generate_bull_call_spread default_generator chain_21 empty_snapshot 105 = Inr t0"
    using i t d k1 k2 c1 c2 n
    by (simp add: generate_bull_call_spread_def Let_def t0_def)
  have s: "bcs_long_strike t0 = 100 \<and> bcs_short_strike t0 = 110 \<and> bcs_net_debit t0 = 400"
    by (simp add: t0_def)
  from bull_call_spread_payoff [OF e] s have "bcs_max_profit t0 = 600 \<and> bcs_breakeven t0 = 104"
    by blast
  with e s show ?thesis
    by blast
qed

lemma set_available_dtes: "set (available_dtes ch) = dte ` set ch"
  by (simp add: available_dtes_def)

lemma py_min_Some:
  "py_min k xs = Some m \<longrightarrow> m \<in> set xs \<and> (\<forall>x\<in>set xs. k m \<le> k x)"
proof (cases xs)
  case Nil
  then show ?thesis by (simp add: py_min_def)
next
  case (Cons x rest)
  show ?thesis
  proof
    assume "py_min k xs = Some m"
    with Cons have m: "m = min_from k x rest"
      by (simp add: py_min_def)
    have "min_from k x rest \<in> set (x # rest)"
      by (rule min_from_in)
    moreover have "\<forall>y\<in>set (x # rest). k (min_from k x rest) \<le> k y"
      by (blast intro: min_from_le)
    ultimately show "m \<in> set xs \<and> (\<forall>x\<in>set xs. k m \<le> k x)"
      unfolding m Cons by blast
  qed
qed

lemma py_min_None: "py_min k xs = None \<longleftrightarrow> xs = []"
  by (simp add: py_min_def split: list.splits)

lemma select_near_dte_nearest:
  assumes "select_near_dte ch = Inr near"
  shows "near \<in> dte ` set ch \<and> (\<forall>d\<in>dte ` set ch. \<bar>near - 21\<bar> \<le> \<bar>d - 21\<bar>)"
proof -
  from assms have "py_min (\<lambda>x. \<bar>x - 21\<bar>) (available_dtes ch) = Some near"
    by (simp add: select_near_dte_def split: option.splits)
  from py_min_Some [THEN mp, OF this] show ?thesis
    by (simp add: set_available_dtes)
qed

lemma select_far_dte_nearest:
  assumes "\<exists>d\<in>dte ` set ch. near + 14 < d"
  shows "select_far_dte ch near \<in> dte ` set ch \<and> near + 14 < select_far_dte ch near
    \<and> (\<forall>d\<in>dte ` set ch. near + 14 < d \<longrightarrow> \<bar>select_far_dte ch near - 45\<bar> \<le> \<bar>d - 45\<bar>)"
proof -
  let ?later = "filter (\<lambda>d. d > near + 14) (available_dtes ch)"
  from assms have "?later \<noteq> []"
    by (auto simp: filter_empty_conv set_available_dtes)
  then obtain far where far: "py_min (\<lambda>x. \<bar>x - 45\<bar>) ?later = Some far"
    using py_min_None [of "\<lambda>x. \<bar>x - 45\<bar>" ?later] by auto
  then have sel: "select_far_dte ch near = far"
    by (simp add: select_far_dte_def)
  from py_min_Some [THEN mp, OF far] have "far \<in> set ?later" and "\<forall>x\<in>set ?later. \<bar>far - 45\<bar> \<le> \<bar>x - 45\<bar>"
    by blast+
  then show ?thesis
    unfolding sel by (auto simp: set_available_dtes)
qed

lemma select_far_dte_default:
  assumes "\<forall>d\<in>dte ` set ch. d \<le> near + 14"
  shows "select_far_dte ch near = near + 30" and "near + 30 \<notin> dte ` set ch"
proof -
  from assms have "filter (\<lambda>d. d > near + 14) (available_dtes ch) = []"
    by (auto simp: filter_empty_conv set_available_dtes)
  then show "select_far_dte ch near = near + 30"
    by (simp add: select_far_dte_def py_min_def)
  show "near + 30 \<notin> dte ` set ch"
  proof
    assume "near + 30 \<in> dte ` set ch"
    with assms have "near + 30 \<le> near + 14" by blast
    then show False by simp
  qed
qed

lemma lookup_absent_dte:
  assumes "d \<notin> dte ` set ch"
  shows "get_option_cost ch k ty d = Inl (OptionNotFound ty k d)"
    and "get_option_bid ch k ty d = Inl (OptionNotFound ty k d)"
proof -
  from assms have "rows_at ch k ty d = []"
    by (auto simp: rows_at_def filter_empty_conv)
  then show "get_option_cost ch k ty d = Inl (OptionNotFound ty k d)"
    and "get_option_bid ch k ty d = Inl (OptionNotFound ty k d)"
    by (simp_all add: get_option_cost_def get_option_bid_def)
qed

lemma find_strike_by_delta_cases:
  "(\<forall>c\<in>set ch. otype c \<noteq> ty) \<and> find_strike_by_delta ch td ty d = Inl (NoOptionsAvailable ty)
   \<or> (\<exists>c\<in>set ch. otype c = ty) \<and> (\<exists>k. find_strike_by_delta ch td ty d = Inr k)"
proof (cases "filtered_rows ch ty d")
  case Nil
  then have "\<forall>c\<in>set ch. otype c \<noteq> ty"
    by (simp add: filtered_rows_empty_iff)
  moreover from Nil have "find_strike_by_delta ch td ty d = Inl (NoOptionsAvailable ty)"
    by (simp add: find_strike_by_delta_def)
  ultimately show ?thesis by blast
next
  case (Cons c0 rest)
  then have "\<not> (\<forall>c\<in>set ch. otype c \<noteq> ty)"
    using filtered_rows_empty_iff [of ch ty d] by simp
  moreover from Cons have "\<exists>k. find_strike_by_delta ch td ty d = Inr k"
    by (simp add: find_strike_by_delta_def)
  ultimately show ?thesis by blast
qed

lemma get_option_bid_cases:
  "get_option_bid ch k ty d = Inl (OptionNotFound ty k d) \<or> (\<exists>b. get_option_bid ch k ty d = Inr b)"
  by (cases "rows_at ch k ty d") (simp_all add: get_option_bid_def)

lemma calendar_spread_fabricated:
  assumes near: "select_near_dte ch = Inr near"
    and far: "select_far_dte ch near = near + 30"
    and absent: "near + 30 \<notin> dte ` set ch"
  shows "((\<forall>c\<in>set ch. otype c \<noteq> ''call'') \<longrightarrow>
            generate_calendar_spread self ch f p = Inl (NoOptionsAvailable ''call''))
       \<and> ((\<exists>c\<in>set ch. otype c = ''call'') \<longrightarrow>
            (\<exists>ty k d. generate_calendar_spread self ch f p = Inl (OptionNotFound ty k d)))"
proof -
  define ty where "ty = (if dict_get f ''rsi_14'' 50 > 50 then ''call'' else ''put'')"
  have gen: "generate_calendar_spread self ch f p =
      bindE (find_strike_by_delta ch 0.50 ''call'' near) (\<lambda>atm.
        bindE (get_option_bid ch atm ty near) (\<lambda>near_credit.
          Inl (OptionNotFound ty atm (near + 30))))"
    unfolding generate_calendar_spread_def Let_def near far bindE_Inr
      lookup_absent_dte(1) [OF absent] bindE_Inl ty_def
    by (rule refl)
  from find_strike_by_delta_cases [of ch "''call''" "0.50" near] show ?thesis
  proof
    assume "(\<forall>c\<in>set ch. otype c \<noteq> ''call'')
        \<and> find_strike_by_delta ch 0.50 ''call'' near = Inl (NoOptionsAvailable ''call'')"
    with gen show ?thesis by simp
  next
    assume "(\<exists>c\<in>set ch. otype c = ''call'') \<and> (\<exists>k. find_strike_by_delta ch 0.50 ''call'' near = Inr k)"
    then obtain k where has: "\<exists>c\<in>set ch. otype c = ''call''"
      and k: "find_strike_by_delta ch 0.50 ''call'' near = Inr k" by blast
    from gen k have gen': "generate_calendar_spread self ch f p =
        bindE (get_option_bid ch k ty near) (\<lambda>near_credit. Inl (OptionNotFound ty k (near + 30)))"
      by simp
    from get_option_bid_cases [of ch k ty near]
    have "\<exists>ty k d. generate_calendar_spread self ch f p = Inl (OptionNotFound ty k d)"
    proof
      assume "get_option_bid ch k ty near = Inl (OptionNotFound ty k near)"
      with gen' have "generate_calendar_spread self ch f p = Inl (OptionNotFound ty k near)"
        by simp
      then show ?thesis by blast
    next
      assume "\<exists>b. get_option_bid ch k ty near = Inr b"
      with gen' have "generate_calendar_spread self ch f p = Inl (OptionNotFound ty k (near + 30))"
        by auto
      then show ?thesis by blast
    qed
    with has show ?thesis by blast
  qed
qed

lemma diagonal_spread_fabricated:
  assumes near: "select_near_dte ch = Inr near"
    and far: "select_far_dte ch near = near + 30"
    and absent: "near + 30 \<notin> dte ` set ch"
    and ty: "ty = (if dict_get f ''rsi_14'' 50 > 55 then ''call'' else ''put'')"
  shows "((\<forall>c\<in>set ch. otype c \<noteq> ty) \<longrightarrow>
            generate_diagonal_spread self ch f p = Inl (NoOptionsAvailable ty))
       \<and> ((\<exists>c\<in>set ch. otype c = ty) \<longrightarrow>
            (\<exists>k. generate_diagonal_spread self ch f p = Inl (OptionNotFound ty k (near + 30))))"
proof -
  define ld :: real where "ld = (if dict_get f ''rsi_14'' 50 > 55 then 0.50 else - 0.50)"
  define sd :: real where "sd = (if dict_get f ''rsi_14'' 50 > 55 then 0.30 else - 0.30)"
  have tup: "(if dict_get f ''rsi_14'' 50 > 55 then (''call'', 0.50, 0.30) else (''put'', - 0.50, - 0.30))
      = (ty, ld, sd)"
    by (simp add: ty ld_def sd_def)
  have gen: "generate_diagonal_spread self ch f p =
      bindE (find_strike_by_delta ch ld ty (near + 30)) (\<lambda>long_strike.
        bindE (find_strike_by_delta ch sd ty near) (\<lambda>short_strike.
          Inl (OptionNotFound ty long_strike (near + 30))))"
    unfolding generate_diagonal_spread_def Let_def near far bindE_Inr tup prod.case
      lookup_absent_dte(1) [OF absent] bindE_Inl
    by (rule refl)
  from find_strike_by_delta_cases [of ch ty ld "near + 30"] show ?thesis
  proof
    assume "(\<forall>c\<in>set ch. otype c \<noteq> ty)
        \<and> find_strike_by_delta ch ld ty (near + 30) = Inl (NoOptionsAvailable ty)"
    with gen show ?thesis by simp
  next
    assume "(\<exists>c\<in>set ch. otype c = ty) \<and> (\<exists>k. find_strike_by_delta ch ld ty (near + 30) = Inr k)"
    then obtain k where has: "\<exists>c\<in>set ch. otype c = ty"
      and k: "find_strike_by_delta ch ld ty (near + 30) = Inr k" by blast
    from find_strike_by_delta_cases [of ch ty sd near] has
    obtain k' where "find_strike_by_delta ch sd ty near = Inr k'" by blast
    with gen k have "generate_diagonal_spread self ch f p = Inl (OptionNotFound ty k (near + 30))"
      by simp
    with has show ?thesis by blast
  qed
qed

text \<open>
  Claim C10, as stated: on every chain whose expirations all lie within \<open>near_dte + 14\<close>
  the calendar and diagonal builders end in the option-not-found error of the lookup at
  the fabricated \<open>far_dte\<close>. On a chain that holds puts only (expirations 21 and 30, so
  \<open>near_dte = 21\<close>) they do not: strike selection asks for calls first and raises the
  no-options error, and no lookup at \<open>far_dte\<close> takes place.
\<close>

theorem fabricated_far_dte_counterexample:
  "available_dtes chain_puts = [21, 30]
   \<and> select_near_dte chain_puts = Inr 21
   \<and> select_far_dte chain_puts 21 = 51
   \<and> generate_calendar_spread default_generator chain_puts empty_snapshot 100 =
       Inl (NoOptionsAvailable ''call'')
   \<and> generate_diagonal_spread default_generator chain_puts snapshot_bullish 100 =
       Inl (NoOptionsAvailable ''call'')"
proof -
  have a: "available_dtes chain_puts = [21, 30]"
    by (simp add: available_dtes_def chain_puts_def)
  have n: "select_near_dte chain_puts = Inr 21"
    by (simp add: select_near_dte_def a py_min_def)
  have f: "select_far_dte chain_puts 21 = 51"
    by (simp add: select_far_dte_def a py_min_def)
  have k: "find_strike_by_delta chain_puts td ''call'' d = Inl (NoOptionsAvailable ''call'')" for td d
    by (simp add: find_strike_by_delta_def filtered_rows_def rows_of_type_dte_def
        rows_of_type_def chain_puts_def)
  have r: "dict_get snapshot_bullish ''rsi_14'' 50 = 60"
    by (simp add: dict_get_def snapshot_bullish_def)
  have cal: "generate_calendar_spread default_generator chain_puts empty_snapshot 100 =
       Inl (NoOptionsAvailable ''call'')"
    by (simp add: generate_calendar_spread_def n k Let_def)
  have diag: "generate_diagonal_spread default_generator chain_puts snapshot_bullish 100 =
       Inl (NoOptionsAvailable ''call'')"
    by (simp add: generate_diagonal_spread_def n k r Let_def)
  from a n f cal diag show ?thesis
    by blast
qed

text \<open>
  Claim C10, amended. \<open>near_dte\<close> is an expiration of the chain nearest to 21. When the
  chain has expirations beyond \<open>near_dte + 14\<close>, \<open>far_dte\<close> is one of them nearest to 45.
  When all expirations lie within \<open>near_dte + 14\<close>, \<open>far_dte\<close> is \<open>near_dte + 30\<close>, which is
  no expiration of the chain; every bid or ask lookup at that expiration raises the
  option-not-found error, and neither builder returns a trade. The calendar builder ends
  in an option-not-found error when the chain holds a call, and in the no-options error of
  strike selection when it holds none. The diagonal builder ends in the option-not-found
  error of the lookup at \<open>far_dte\<close> when the chain holds a contract of the type it trades
  (calls for \<open>rsi_14 > 55\<close>, puts otherwise), and in the no-options error when it holds
  none.
\<close>

theorem fabricated_far_dte_never_trades:
  assumes near: "select_near_dte ch = Inr near"
  shows "near \<in> dte ` set ch
    \<and> (\<forall>d\<in>dte ` set ch. \<bar>near - 21\<bar> \<le> \<bar>d - 21\<bar>)
    \<and> ((\<exists>d\<in>dte ` set ch. near + 14 < d) \<longrightarrow>
          select_far_dte ch near \<in> dte ` set ch
        \<and> near + 14 < select_far_dte ch near
        \<and> (\<forall>d\<in>dte ` set ch. near + 14 < d \<longrightarrow> \<bar>select_far_dte ch near - 45\<bar> \<le> \<bar>d - 45\<bar>))
    \<and> ((\<forall>d\<in>dte ` set ch. d \<le> near + 14) \<longrightarrow>
          select_far_dte ch near = near + 30
        \<and> near + 30 \<notin> dte ` set ch
        \<and> (\<forall>k ty. get_option_cost ch k ty (near + 30) = Inl (OptionNotFound ty k (near + 30)))
        \<and> (\<forall>k ty. get_option_bid ch k ty (near + 30) = Inl (OptionNotFound ty k (near + 30)))
        \<and> (\<exists>e. generate_calendar_spread self ch f p = Inl e)
        \<and> (\<exists>e. generate_diagonal_spread self ch f p = Inl e)
        \<and> ((\<exists>c\<in>set ch. otype c = ''call'') \<longrightarrow>
              (\<exists>ty k d. generate_calendar_spread self ch f p = Inl (OptionNotFound ty k d)))
        \<and> ((\<forall>c\<in>set ch. otype c \<noteq> ''call'') \<longrightarrow>
              generate_calendar_spread self ch f p = Inl (NoOptionsAvailable ''call''))
        \<and> ((\<exists>c\<in>set ch. otype c = (if dict_get f ''rsi_14'' 50 > 55 then ''call'' else ''put'')) \<longrightarrow>
              (\<exists>k. generate_diagonal_spread self ch f p =
                 Inl (OptionNotFound (if dict_get f ''rsi_14'' 50 > 55 then ''call'' else ''put'')
                        k (near + 30))))
        \<and> ((\<forall>c\<in>set ch. otype c \<noteq> (if dict_get f ''rsi_14'' 50 > 55 then ''call'' else ''put'')) \<longrightarrow>
              generate_diagonal_spread self ch f p =
                Inl (NoOptionsAvailable (if dict_get f ''rsi_14'' 50 > 55 then ''call'' else ''put''))))"
proof -
  define ty where "ty = (if dict_get f ''rsi_14'' 50 > 55 then ''call'' else ''put'')"
  note nearest = select_near_dte_nearest [OF near]
  have later: "(\<exists>d\<in>dte ` set ch. near + 14 < d) \<longrightarrow>
          select_far_dte ch near \<in> dte ` set ch
        \<and> near + 14 < select_far_dte ch near
        \<and> (\<forall>d\<in>dte ` set ch. near + 14 < d \<longrightarrow> \<bar>select_far_dte ch near - 45\<bar> \<le> \<bar>d - 45\<bar>)"
    using select_far_dte_nearest [of ch near] by blast
  have within: "select_far_dte ch near = near + 30
        \<and> near + 30 \<notin> dte ` set ch
        \<and> (\<forall>k ty. get_option_cost ch k ty (near + 30) = Inl (OptionNotFound ty k (near + 30)))
        \<and> (\<forall>k ty. get_option_bid ch k ty (near + 30) = Inl (OptionNotFound ty k (near + 30)))
        \<and> (\<exists>e. generate_calendar_spread self ch f p = Inl e)
        \<and> (\<exists>e. generate_diagonal_spread self ch f p = Inl e)
        \<and> ((\<exists>c\<in>set ch. otype c = ''call'') \<longrightarrow>
              (\<exists>ty k d. generate_calendar_spread self ch f p = Inl (OptionNotFound ty k d)))
        \<and> ((\<forall>c\<in>set ch. otype c \<noteq> ''call'') \<longrightarrow>
              generate_calendar_spread self ch f p = Inl (NoOptionsAvailable ''call''))
        \<and> ((\<exists>c\<in>set ch. otype c = ty) \<longrightarrow>
              (\<exists>k. generate_diagonal_spread self ch f p = Inl (OptionNotFound ty k (near + 30))))
        \<and> ((\<forall>c\<in>set ch. otype c \<noteq> ty) \<longrightarrow>
              generate_diagonal_spread self ch f p = Inl (NoOptionsAvailable ty))"
    if w: "\<forall>d\<in>dte ` set ch. d \<le> near + 14"
  proof -
    note far = select_far_dte_default(1) [OF w]
    note absent = select_far_dte_default(2) [OF w]
    note cal = calendar_spread_fabricated [OF near far absent, of self f p]
    note diag = diagonal_spread_fabricated [OF near far absent ty_def, of self p]
    have cal_err: "\<exists>e. generate_calendar_spread self ch f p = Inl e"
      using cal by blast
    have diag_err: "\<exists>e. generate_diagonal_spread self ch f p = Inl e"
      using diag by blast
    from far absent lookup_absent_dte [OF absent] cal_err diag_err cal diag show ?thesis
      by blast
  qed
  from nearest later within show ?thesis
    unfolding ty_def by blast
qed

theorem fabricated_far_dte_never_trades_witness:
  "select_near_dte chain_21 = Inr 21
   \<and> select_far_dte chain_21 21 = 51
   \<and> get_option_cost chain_21 100 ''put'' 51 = Inl (OptionNotFound ''put'' 100 51)
   \<and> (\<exists>ty k d. generate_calendar_spread default_generator chain_21 empty_snapshot 105 =
         Inl (OptionNotFound ty k d))
   \<and> (\<exists>k. generate_diagonal_spread default_generator chain_21 empty_snapshot 105 =
         Inl (OptionNotFound ''put'' k 51))
   \<and> select_near_dte chain_puts = Inr 21
   \<and> generate_calendar_spread default_generator chain_puts empty_snapshot 100 =
       Inl (NoOptionsAvailable ''call'')
   \<and> generate_diagonal_spread default_generator chain_puts snapshot_bullish 100 =
       Inl (NoOptionsAvailable ''call'')
   \<and> select_near_dte chain_two_expiries = Inr 21
   \<and> 21 + 14 < select_far_dte chain_two_expiries 21"
proof -
  have n1: "select_near_dte chain_21 = Inr 21"
    by (simp add: select_near_dte_def available_dtes_def chain_21_def py_min_def)
  have w1: "\<forall>d\<in>dte ` set chain_21. d \<le> 21 + 14"
    by (simp add: chain_21_def)
  have c1: "\<exists>c\<in>set chain_21. otype c = ''call''"
    by (simp add: chain_21_def)
  have r1: "dict_get empty_snapshot ''rsi_14'' 50 = 50"
    by (simp add: dict_get_def empty_snapshot_def)
  have p1: "\<exists>c\<in>set chain_21.
      otype c = (if dict_get empty_snapshot ''rsi_14'' 50 > 55 then ''call'' else ''put'')"
    by (simp add: chain_21_def r1)
  note t1 = fabricated_far_dte_never_trades [OF n1, of default_generator empty_snapshot 105]
  from t1 w1 have far1: "select_far_dte chain_21 21 = 51"
    by simp
  from t1 w1 have look1: "get_option_cost chain_21 100 ''put'' 51 = Inl (OptionNotFound ''put'' 100 51)"
    by simp
  from t1 w1 c1 have cal1: "\<exists>ty k d. generate_calendar_spread default_generator chain_21
      empty_snapshot 105 = Inl (OptionNotFound ty k d)"
    by blast
  from t1 w1 p1 have "\<exists>k. generate_diagonal_spread default_generator chain_21 empty_snapshot 105 =
      Inl (OptionNotFound (if dict_get empty_snapshot ''rsi_14'' 50 > 55 then ''call'' else ''put'')
             k (21 + 30))"
    by blast
  then have diag1: "\<exists>k. generate_diagonal_spread default_generator chain_21 empty_snapshot 105 =
      Inl (OptionNotFound ''put'' k 51)"
    by (simp add: r1)
  have n2: "select_near_dte chain_puts = Inr 21"
    by (simp add: select_near_dte_def available_dtes_def chain_puts_def py_min_def)
  have w2: "\<forall>d\<in>dte ` set chain_puts. d \<le> 21 + 14"
    by (simp add: chain_puts_def)
  have c2: "\<forall>c\<in>set chain_puts. otype c \<noteq> ''call''"
    by (simp add: chain_puts_def)
  have r2: "dict_get snapshot_bullish ''rsi_14'' 50 = 60"
    by (simp add: dict_get_def snapshot_bullish_def)
  have p2: "\<forall>c\<in>set chain_puts.
      otype c \<noteq> (if dict_get snapshot_bullish ''rsi_14'' 50 > 55 then ''call'' else ''put'')"
    by (simp add: chain_puts_def r2)
  from fabricated_far_dte_never_trades [OF n2, of default_generator empty_snapshot 100] w2 c2
  have cal2: "generate_calendar_spread default_generator chain_puts empty_snapshot 100 =
      Inl (NoOptionsAvailable ''call'')"
    by blast
  from fabricated_far_dte_never_trades [OF n2, of default_generator snapshot_bullish 100] w2 p2
  have "generate_diagonal_spread default_generator chain_puts snapshot_bullish 100 =
      Inl (NoOptionsAvailable
             (if dict_get snapshot_bullish ''rsi_14'' 50 > 55 then ''call'' else ''put''))"
    by blast
  then have diag2: "generate_diagonal_spread default_generator chain_puts snapshot_bullish 100 =
      Inl (NoOptionsAvailable ''call'')"
    by (simp add: r2)
  have n3: "select_near_dte chain_two_expiries = Inr 21"
    by (simp add: select_near_dte_def available_dtes_def chain_two_expiries_def py_min_def)
  have l3: "\<exists>d\<in>dte ` set chain_two_expiries. 21 + 14 < d"
    by (simp add: chain_two_expiries_def)
  from fabricated_far_dte_never_trades [OF n3, of default_generator empty_snapshot 100] l3
  have far3: "21 + 14 < select_far_dte chain_two_expiries 21"
    by blast
  from n1 far1 look1 cal1 diag1 n2 cal2 diag2 n3 far3 show ?thesis
    by blast
qed

end
